theory Spec2Isabelle
  imports Main "HOL-Library.Multiset" "HOL-Library.Option_ord"
begin

section \<open>Python values, exceptions and built-ins\<close>

text \<open>
  The site is a Flask application: \<^verbatim>\<open>models.py\<close> declares six SQLAlchemy model
  classes, \<^verbatim>\<open>app.py\<close> the routes and the bootstrap, \<^verbatim>\<open>admin_views.py\<close> the
  Flask-Admin views. Column values are dynamically typed Python values; \<open>VNone\<close> is
  Python's \<open>None\<close> and SQL's \<open>NULL\<close>. A \<open>datetime\<close> is carried as its \<open>str()\<close> text.
\<close>

datatype val = VNone | VStr string | VInt int | VBool bool | VDateTime string

text \<open>The exceptions the code can meet, each with the text \<open>str(e)\<close> gives.\<close>

datatype error =
    TypeError string
  | ValueError string
  | ModuleNotFoundError string
  | BibtexError string
  | IntegrityError string
  | IsADirectoryError string
  | FileNotFoundError string
  | NotADirectoryError string
  | FileExistsError string
  | StaleDataError string

fun message :: "error \<Rightarrow> string" where
  "message (TypeError m) = m"
| "message (ValueError m) = m"
| "message (ModuleNotFoundError m) = m"
| "message (BibtexError m) = m"
| "message (IntegrityError m) = m"
| "message (IsADirectoryError m) = m"
| "message (FileNotFoundError m) = m"
| "message (NotADirectoryError m) = m"
| "message (FileExistsError m) = m"
| "message (StaleDataError m) = m"

text \<open>Truth value testing: \<open>None\<close>, \<open>False\<close>, \<open>0\<close> and the empty string are false.\<close>

fun truthy :: "val \<Rightarrow> bool" where
  "truthy VNone = False"
| "truthy (VStr s) = (s \<noteq> [])"
| "truthy (VInt n) = (n \<noteq> 0)"
| "truthy (VBool b) = b"
| "truthy (VDateTime t) = True"

text \<open>\<open>d.get(k)\<close> on a dictionary of strings, read for its truth value.\<close>

fun truthy_str :: "string option \<Rightarrow> bool" where
  "truthy_str None = False"
| "truthy_str (Some s) = (s \<noteq> [])"

text \<open>\<open>d.get(k, default)\<close>.\<close>

definition get_default :: "('k \<rightharpoonup> 'v) \<Rightarrow> 'k \<Rightarrow> 'v \<Rightarrow> 'v" where
  "get_default d k dflt = (case d k of None \<Rightarrow> dflt | Some v \<Rightarrow> v)"

text \<open>\<open>s.replace(c, '')\<close> for a single character \<open>c\<close>.\<close>

definition replace_char :: "char \<Rightarrow> string \<Rightarrow> string" where
  "replace_char c s = filter (\<lambda>x. x \<noteq> c) s"

subsection \<open>\<open>str(v)\<close>\<close>

fun show_nat :: "nat \<Rightarrow> string" where
  "show_nat n =
     (if n < 10 then [char_of (48 + n)]
      else show_nat (n div 10) @ [char_of (48 + n mod 10)])"

fun py_str :: "val \<Rightarrow> string" where
  "py_str VNone = ''None''"
| "py_str (VStr s) = s"
| "py_str (VInt n) = (if n < 0 then ''-'' @ show_nat (nat (- n)) else show_nat (nat n))"
| "py_str (VBool b) = (if b then ''True'' else ''False'')"
| "py_str (VDateTime t) = t"

subsection \<open>\<open>int(s)\<close> on a string\<close>

text \<open>
  The functions of the source that call \<open>int\<close> take it as a parameter, so what is
  proved of them holds of whatever \<open>int\<close> does. \<open>py_int\<close> is the instance used at the
  concrete inputs: CPython's \<open>int\<close> on a text whose characters are code points below
  256. White space around the number is dropped (tab, line feed, vertical tab, form
  feed, carriage return and space, and the two Latin-1 spaces U+0085 and U+00A0, which
  \<open>int\<close> turns into spaces first), then come an optional sign and decimal digits, where
  single underscores may stand between digits. More than 4300 digits (the interpreter's
  default limit) and anything else raise \<open>ValueError\<close>. The message quotes the text as
  it is written, which is what \<open>repr\<close> gives for a text of printable ASCII characters
  without quote or backslash.
\<close>

definition is_digit :: "char \<Rightarrow> bool" where
  "is_digit c = (48 \<le> (of_char c :: nat) \<and> (of_char c :: nat) \<le> 57)"

definition digit_val :: "char \<Rightarrow> nat" where
  "digit_val c = of_char c - 48"

definition int_space :: "char \<Rightarrow> bool" where
  "int_space c =
     (let n = (of_char c :: nat) in (9 \<le> n \<and> n \<le> 13) \<or> n = 32 \<or> n = 133 \<or> n = 160)"

definition strip_int_space :: "string \<Rightarrow> string" where
  "strip_int_space s = rev (dropWhile int_space (rev (dropWhile int_space s)))"

fun digits_acc :: "nat \<Rightarrow> string \<Rightarrow> nat option" where
  "digits_acc acc [] = Some acc"
| "digits_acc acc (c # cs) =
     (if is_digit c then digits_acc (10 * acc + digit_val c) cs
      else if c = CHR ''_'' then
        (case cs of
           [] \<Rightarrow> None
         | d # ds \<Rightarrow> if is_digit d then digits_acc acc cs else None)
      else None)"

fun int_digits :: "string \<Rightarrow> nat option" where
  "int_digits [] = None"
| "int_digits (c # cs) = (if is_digit c then digits_acc 0 (c # cs) else None)"

definition invalid_literal :: "string \<Rightarrow> error" where
  "invalid_literal s =
     ValueError (''invalid literal for int() with base 10: '' @ [CHR 0x27] @ s @ [CHR 0x27])"

definition max_str_digits :: nat where
  "max_str_digits = 4300"

definition exceeds_limit :: "nat \<Rightarrow> error" where
  "exceeds_limit n =
     ValueError (''Exceeds the limit ('' @ show_nat max_str_digits @
       '' digits) for integer string conversion: value has '' @ show_nat n @
       '' digits; use sys.set_int_max_str_digits() to increase the limit'')"

text \<open>
  The digits are counted on the leading run of digits and underscores, before the rest
  of the text is looked at.
\<close>

definition py_int :: "string \<Rightarrow> error + int" where
  "py_int s =
     (let t = strip_int_space s;
          (neg, body) = (case t of
                           c # cs \<Rightarrow> if c = CHR ''-'' then (True, cs)
                                     else if c = CHR ''+'' then (False, cs)
                                     else (False, t)
                         | [] \<Rightarrow> (False, t));
          run = takeWhile (\<lambda>c. is_digit c \<or> c = CHR ''_'') body;
          digits = length (filter is_digit run)
      in if int_digits run \<noteq> None \<and> max_str_digits < digits then Inl (exceeds_limit digits)
         else case int_digits body of
                None \<Rightarrow> Inl (invalid_literal s)
              | Some n \<Rightarrow> Inr (if neg then - int n else int n))"

section \<open>\<^verbatim>\<open>models.py\<close>: the persisted entities\<close>

text \<open>
  A mapped instance is its attribute dictionary; an attribute that was never set reads
  as \<open>None\<close>.
\<close>

type_synonym obj = "string \<rightharpoonup> val"

definition attr :: "obj \<Rightarrow> string \<Rightarrow> val" where
  "attr self k = (case self k of None \<Rightarrow> VNone | Some v \<Rightarrow> v)"

text \<open>
  One \<open>db.Column\<close>: its attribute name, \<open>nullable\<close>, \<open>default\<close>, \<open>unique\<close> and
  \<open>primary_key\<close>. The declared string lengths are left out: the configured SQLite store
  does not enforce them.
\<close>

datatype col_default = NoDefault | Scalar val | UtcNow

record column =
  cname :: string
  nullable :: bool
  default_value :: col_default
  unique :: bool
  primary_key :: bool

definition Column :: "string \<Rightarrow> bool \<Rightarrow> col_default \<Rightarrow> column" where
  "Column n nl d =
     \<lparr>cname = n, nullable = nl, default_value = d, unique = False, primary_key = False\<rparr>"

definition PrimaryKey :: "string \<Rightarrow> column" where
  "PrimaryKey n =
     \<lparr>cname = n, nullable = False, default_value = NoDefault, unique = True, primary_key = True\<rparr>"

record model =
  classname :: string
  columns :: "column list"
  relationships :: "string list"

definition attributes :: "model \<Rightarrow> string list" where
  "attributes cls = map cname (columns cls) @ relationships cls"

definition AdminUser :: model where
  "AdminUser = \<lparr>classname = ''AdminUser'',
     columns =
       [PrimaryKey ''id'',
        (Column ''username'' False NoDefault)\<lparr>unique := True\<rparr>,
        Column ''password_hash'' False NoDefault,
        Column ''name'' False (Scalar (VStr ''Administrator''))],
     relationships = []\<rparr>"

definition Professor :: model where
  "Professor = \<lparr>classname = ''Professor'',
     columns =
       [PrimaryKey ''id'',
        Column ''name'' False NoDefault,
        Column ''title'' False (Scalar (VStr ''Professor'')),
        Column ''bio'' True NoDefault,
        Column ''education'' True NoDefault,
        Column ''experience'' True NoDefault,
        Column ''photo'' True NoDefault,
        Column ''email'' True NoDefault,
        Column ''office'' True NoDefault,
        Column ''office_hours'' True NoDefault,
        Column ''phone'' True NoDefault,
        Column ''google_scholar'' True NoDefault,
        Column ''linkedin'' True NoDefault,
        Column ''website'' True NoDefault,
        Column ''orcid'' True NoDefault],
     relationships = []\<rparr>"

definition Student :: model where
  "Student = \<lparr>classname = ''Student'',
     columns =
       [PrimaryKey ''id'',
        Column ''name'' False NoDefault,
        Column ''degree_type'' False NoDefault,
        Column ''research_focus'' True NoDefault,
        Column ''school'' False NoDefault,
        Column ''start_date'' True NoDefault,
        Column ''end_date'' True NoDefault,
        Column ''photo'' True NoDefault,
        Column ''is_current'' True (Scalar (VBool True)),
        Column ''thesis_title'' True NoDefault,
        Column ''current_work'' True NoDefault,
        Column ''linkedin'' True NoDefault,
        Column ''website'' True NoDefault,
        Column ''google_scholar'' True NoDefault,
        Column ''email'' True NoDefault,
        Column ''created_at'' True UtcNow],
     relationships = [''projects'']\<rparr>"

definition Project :: model where
  "Project = \<lparr>classname = ''Project'',
     columns =
       [PrimaryKey ''id'',
        Column ''title'' False NoDefault,
        Column ''topic'' True NoDefault,
        Column ''overview'' False NoDefault,
        Column ''status'' True (Scalar (VStr ''Ongoing'')),
        Column ''start_date'' True NoDefault,
        Column ''end_date'' True NoDefault,
        Column ''image1'' True NoDefault,
        Column ''image2'' True NoDefault,
        Column ''image3'' True NoDefault,
        Column ''image4'' True NoDefault,
        Column ''created_at'' True UtcNow],
     relationships = [''members'']\<rparr>"

definition Publication :: model where
  "Publication = \<lparr>classname = ''Publication'',
     columns =
       [PrimaryKey ''id'',
        Column ''bibtex'' False NoDefault,
        Column ''title'' True NoDefault,
        Column ''authors'' True NoDefault,
        Column ''venue'' True NoDefault,
        Column ''year'' True NoDefault,
        Column ''url'' True NoDefault,
        Column ''google_scholar_url'' True NoDefault,
        Column ''citations'' True (Scalar (VInt 0)),
        Column ''is_featured'' True (Scalar (VBool False)),
        Column ''created_at'' True UtcNow],
     relationships = []\<rparr>"

text \<open>The column \<open>focus_statement\<close> of \<open>LabInfo\<close> is commented out in the source.\<close>

definition LabInfo :: model where
  "LabInfo = \<lparr>classname = ''LabInfo'',
     columns =
       [PrimaryKey ''id'',
        Column ''lab_name'' True (Scalar (VStr ''DADL Lab'')),
        Column ''lab_full_name'' True
          (Scalar (VStr ''Data Analysis and Deep Learning Laboratory'')),
        Column ''mission'' True NoDefault,
        Column ''research_areas'' True NoDefault,
        Column ''lab_email'' True NoDefault,
        Column ''lab_address'' True NoDefault,
        Column ''lab_phone'' True NoDefault],
     relationships = []\<rparr>"

text \<open>
  The constructor every model class inherits from SQLAlchemy's declarative base: each
  keyword must name an attribute of the class, else \<open>TypeError\<close>; the accepted ones are
  set in turn. The attributes are the mapped columns and relationships (the class also
  has its methods and the framework's own attributes, which no call in the source names).
\<close>

fun declarative_constructor :: "model \<Rightarrow> (string \<times> val) list \<Rightarrow> obj \<Rightarrow> error + obj" where
  "declarative_constructor cls [] self = Inr self"
| "declarative_constructor cls ((k, v) # kwargs) self =
     (if k \<notin> set (attributes cls)
      then Inl (TypeError ([CHR 0x27] @ k @ [CHR 0x27] @
                  '' is an invalid keyword argument for '' @ classname cls))
      else declarative_constructor cls kwargs (self(k \<mapsto> v)))"

subsection \<open>\<open>AdminUser\<close>\<close>

text \<open>
  The two hashing primitives of \<open>werkzeug.security\<close> are parameters
  (\<open>generate_password_hash\<close>, \<open>check_password_hash\<close>).
\<close>

definition set_password :: "(string \<Rightarrow> string) \<Rightarrow> obj \<Rightarrow> string \<Rightarrow> obj" where
  "set_password generate_password_hash self password =
     self(''password_hash'' \<mapsto> VStr (generate_password_hash password))"

definition check_password :: "(string \<Rightarrow> string \<Rightarrow> bool) \<Rightarrow> obj \<Rightarrow> string \<Rightarrow> error + bool" where
  "check_password check_password_hash self password =
     (case attr self ''password_hash'' of
        VStr h \<Rightarrow> Inr (check_password_hash h password)
      | _ \<Rightarrow> Inl (TypeError ''password hash is not a string''))"

subsection \<open>\<open>Publication.parse_bibtex\<close>\<close>

text \<open>
  \<open>bibtexparser\<close> is not part of the repository: the module is a parameter, \<open>None\<close> when
  the import fails, else its \<open>loads\<close>, which gives the entries of a text (each a
  dictionary from field names to strings) or raises. The built-in \<open>int\<close> is the
  parameter \<open>to_int\<close>.
\<close>

type_synonym entry = "string \<rightharpoonup> string"
type_synonym bibtexparser = "string \<Rightarrow> error + entry list"

text \<open>
  The body of the \<open>try\<close> block: the outcome, and the instance as the assignments that
  ran before a raise have left it.
\<close>

definition parse_bibtex_try ::
  "bibtexparser option \<Rightarrow> (string \<Rightarrow> error + int) \<Rightarrow> obj \<Rightarrow> (error + unit) \<times> obj" where
  "parse_bibtex_try module to_int self =
     (case module of
        None \<Rightarrow> (Inl (ModuleNotFoundError ''No module named bibtexparser''), self)
      | Some loads \<Rightarrow>
          (case (case attr self ''bibtex'' of
                   VStr text \<Rightarrow> loads text
                 | _ \<Rightarrow> Inl (TypeError ''expected string'')) of
             Inl e \<Rightarrow> (Inl e, self)
           | Inr [] \<Rightarrow> (Inr (), self)
           | Inr (entry # _) \<Rightarrow>
               (let self1 = self(''title'' \<mapsto>
                      VStr (replace_char (CHR 0x7D) (replace_char (CHR 0x7B)
                              (get_default entry ''title'' ''''))));
                    self2 = self1(''authors'' \<mapsto> VStr (get_default entry ''author'' ''''));
                    self3 = self2(''venue'' \<mapsto>
                      VStr (if truthy_str (entry ''booktitle'')
                            then get_default entry ''booktitle'' ''''
                            else get_default entry ''journal'' ''''))
                in case (if truthy_str (entry ''year'')
                         then map_sum id VInt (to_int (get_default entry ''year'' ''0''))
                         else Inr VNone) of
                     Inl e \<Rightarrow> (Inl e, self3)
                   | Inr year \<Rightarrow>
                       (Inr (), self3(''year'' \<mapsto> year,
                                      ''url'' \<mapsto> VStr (get_default entry ''url'' ''''))))))"

text \<open>
  \<open>except Exception as e: print(...)\<close>: the method returns the instance and what it
  printed.
\<close>

definition parse_bibtex ::
  "bibtexparser option \<Rightarrow> (string \<Rightarrow> error + int) \<Rightarrow> obj \<Rightarrow> obj \<times> string list" where
  "parse_bibtex module to_int self =
     (case parse_bibtex_try module to_int self of
        (Inl e, self') \<Rightarrow> (self', [''Error parsing BibTeX: '' @ message e])
      | (Inr _, self') \<Rightarrow> (self', []))"

section \<open>The store, the session and the process state\<close>

text \<open>
  \<open>tables\<close> holds the committed rows of each model class, in insertion order;
  \<open>pending\<close> holds the objects given to \<open>db.session.add\<close> and not yet committed.
\<close>

record db_session =
  tables :: "string \<Rightarrow> obj list"
  pending :: "(model \<times> obj) list"

datatype node = File | Dir

record world =
  db :: db_session
  console :: "string list"
  user_id :: "int option"
  flashes :: "(string \<times> string) list"
  files :: "string \<rightharpoonup> node"

text \<open>
  \<open>Model.query\<close>: the rows of the class, the committed ones and then those added in the
  running transaction (a query flushes the session first).
\<close>

definition query :: "db_session \<Rightarrow> model \<Rightarrow> obj list" where
  "query s cls =
     tables s (classname cls) @
     map snd (filter (\<lambda>(c, row). classname c = classname cls) (pending s))"

text \<open>
  \<open>filter_by(k=v, ...)\<close> is the conjunction of the comparisons \<open>k = v\<close>. For a value
  other than \<open>None\<close> the SQL comparison is true of the rows that hold that value (never
  of a \<open>NULL\<close>); \<open>k=None\<close> is rendered \<open>k IS NULL\<close>. Both are equality of values.
\<close>

definition filter_by :: "(string \<times> val) list \<Rightarrow> obj list \<Rightarrow> obj list" where
  "filter_by kwargs rows =
     filter (\<lambda>row. list_all (\<lambda>(k, v). attr row k = v) kwargs) rows"

text \<open>
  \<open>order_by(column.desc())\<close> on an integer column. SQLite sorts \<open>NULL\<close> below every
  number, so it comes last here, as \<open>None\<close> is least among the keys. Rows with the same
  key stay in table order (SQL leaves their order open).
\<close>

definition int_column :: "string \<Rightarrow> obj \<Rightarrow> int option" where
  "int_column k row = (case attr row k of VInt n \<Rightarrow> Some n | _ \<Rightarrow> None)"

definition order_by_desc :: "(obj \<Rightarrow> int option) \<Rightarrow> obj list \<Rightarrow> obj list" where
  "order_by_desc key rows = rev (sort_key key (rev rows))"

definition limit :: "nat \<Rightarrow> obj list \<Rightarrow> obj list" where
  "limit n rows = take n rows"

definition first :: "obj list \<Rightarrow> obj option" where
  "first rows = (case rows of [] \<Rightarrow> None | row # _ \<Rightarrow> Some row)"

definition query_get :: "db_session \<Rightarrow> model \<Rightarrow> int \<Rightarrow> obj option" where
  "query_get s cls pk = find (\<lambda>row. attr row ''id'' = VInt pk) (query s cls)"

definition session_add :: "model \<Rightarrow> obj \<Rightarrow> world \<Rightarrow> world" where
  "session_add cls row w = w\<lparr>db := (db w)\<lparr>pending := pending (db w) @ [(cls, row)]\<rparr>\<rparr>"

definition py_print :: "string \<Rightarrow> world \<Rightarrow> world" where
  "py_print line w = w\<lparr>console := console w @ [line]\<rparr>"

subsection \<open>Commit\<close>

text \<open>
  An insert fills the columns left at \<open>None\<close> from their defaults, numbers the row when
  it has no \<open>id\<close>, and fails with \<open>IntegrityError\<close> on a \<open>NOT NULL\<close> or \<open>UNIQUE\<close>
  violation. \<open>now\<close> is the text of \<open>datetime.utcnow()\<close>.
\<close>

fun apply_defaults :: "string \<Rightarrow> column list \<Rightarrow> obj \<Rightarrow> obj" where
  "apply_defaults now [] row = row"
| "apply_defaults now (c # cs) row =
     apply_defaults now cs
       (if attr row (cname c) = VNone then
          (case default_value c of
             NoDefault \<Rightarrow> row
           | Scalar v \<Rightarrow> row(cname c \<mapsto> v)
           | UtcNow \<Rightarrow> row(cname c \<mapsto> VDateTime now))
        else row)"

definition next_id :: "obj list \<Rightarrow> int" where
  "next_id rows = fold (\<lambda>row m. case attr row ''id'' of VInt i \<Rightarrow> max m (i + 1) | _ \<Rightarrow> m) rows 1"

definition violated :: "obj list \<Rightarrow> obj \<Rightarrow> column \<Rightarrow> bool" where
  "violated rows row c =
     ((\<not> nullable c \<and> attr row (cname c) = VNone) \<or>
      (unique c \<and> attr row (cname c) \<noteq> VNone \<and>
         list_ex (\<lambda>r. attr r (cname c) = attr row (cname c)) rows))"

definition insert_row :: "string \<Rightarrow> model \<Rightarrow> obj \<Rightarrow> obj list \<Rightarrow> error + obj list" where
  "insert_row now cls row rows =
     (let row1 = apply_defaults now (columns cls) row;
          row2 = (if attr row1 ''id'' = VNone then row1(''id'' \<mapsto> VInt (next_id rows)) else row1)
      in case find (violated rows row2) (columns cls) of
           Some c \<Rightarrow> Inl (IntegrityError (''constraint failed: '' @ classname cls @ ''.'' @ cname c))
         | None \<Rightarrow> Inr (rows @ [row2]))"

fun flush :: "string \<Rightarrow> (model \<times> obj) list \<Rightarrow> (string \<Rightarrow> obj list) \<Rightarrow> error + (string \<Rightarrow> obj list)" where
  "flush now [] tabs = Inr tabs"
| "flush now ((cls, row) # rest) tabs =
     (case insert_row now cls row (tabs (classname cls)) of
        Inl e \<Rightarrow> Inl e
      | Inr rows \<Rightarrow> flush now rest (tabs(classname cls := rows)))"

text \<open>\<open>db.session.commit()\<close>: all pending rows are written, or none is and it raises.\<close>

definition commit :: "string \<Rightarrow> world \<Rightarrow> (error + unit) \<times> world" where
  "commit now w =
     (case flush now (pending (db w)) (tables (db w)) of
        Inl e \<Rightarrow> (Inl e, w)
      | Inr tabs \<Rightarrow> (Inr (), w\<lparr>db := \<lparr>tables = tabs, pending = []\<rparr>\<rparr>))"

text \<open>Statements in sequence: a raise skips the rest.\<close>

definition and_then ::
  "(world \<Rightarrow> (error + unit) \<times> world) \<Rightarrow> (world \<Rightarrow> (error + unit) \<times> world) \<Rightarrow>
   world \<Rightarrow> (error + unit) \<times> world" where
  "and_then f g w = (case f w of (Inl e, w') \<Rightarrow> (Inl e, w') | (Inr _, w') \<Rightarrow> g w')"

section \<open>\<^verbatim>\<open>app.py\<close>: routes and bootstrap\<close>

datatype http_method = GET | POST

record request =
  request_method :: http_method
  form :: "string \<rightharpoonup> string"
  args :: "string \<rightharpoonup> string"
  url :: string

text \<open>
  A redirect target is a literal URL or \<open>url_for(endpoint, **values)\<close>, kept unexpanded.
  A response is a redirect or a rendered template with its keyword arguments.
\<close>

datatype location = Url string | UrlFor string "(string \<times> string) list"

datatype template_arg = Value val | Object "obj option" | Rows "obj list" | Link location

datatype response = Redirect location | Render string "(string \<times> template_arg) list"

subsection \<open>Flask-Login\<close>

definition load_user :: "world \<Rightarrow> int \<Rightarrow> obj option" where
  "load_user w uid = query_get (db w) AdminUser uid"

definition current_user :: "world \<Rightarrow> obj option" where
  "current_user w = (case user_id w of None \<Rightarrow> None | Some uid \<Rightarrow> load_user w uid)"

definition is_authenticated :: "world \<Rightarrow> bool" where
  "is_authenticated w = (current_user w \<noteq> None)"

definition login_user :: "obj \<Rightarrow> world \<Rightarrow> world" where
  "login_user user w = (case attr user ''id'' of VInt i \<Rightarrow> w\<lparr>user_id := Some i\<rparr> | _ \<Rightarrow> w)"

definition flash :: "string \<Rightarrow> string \<Rightarrow> world \<Rightarrow> world" where
  "flash msg category w = w\<lparr>flashes := flashes w @ [(msg, category)]\<rparr>"

subsection \<open>\<open>home\<close>\<close>

text \<open>The keyword arguments \<open>home\<close> hands to \<open>single_page.html\<close>.\<close>

record home_context =
  lab_info :: "obj option"
  professor :: "obj option"
  current_phd :: "obj list"
  current_masters :: "obj list"
  former_phd :: "obj list"
  former_masters :: "obj list"
  ongoing_projects :: "obj list"
  completed_projects :: "obj list"
  featured_publications :: "obj list"

definition home :: "world \<Rightarrow> home_context" where
  "home w =
     \<lparr>lab_info = first (query (db w) LabInfo),
      professor = first (query (db w) Professor),
      current_phd =
        filter_by [(''is_current'', VBool True), (''degree_type'', VStr ''PhD'')]
          (query (db w) Student),
      current_masters =
        filter_by [(''is_current'', VBool True), (''degree_type'', VStr ''Masters'')]
          (query (db w) Student),
      former_phd =
        filter_by [(''is_current'', VBool False), (''degree_type'', VStr ''PhD'')]
          (query (db w) Student),
      former_masters =
        filter_by [(''is_current'', VBool False), (''degree_type'', VStr ''Masters'')]
          (query (db w) Student),
      ongoing_projects = filter_by [(''status'', VStr ''Ongoing'')] (query (db w) Project),
      completed_projects = filter_by [(''status'', VStr ''Completed'')] (query (db w) Project),
      featured_publications =
        limit 5 (order_by_desc (int_column ''year'')
          (filter_by [(''is_featured'', VBool True)] (query (db w) Publication)))\<rparr>"

subsection \<open>\<open>admin_login\<close>\<close>

definition admin_login ::
  "(string \<Rightarrow> string \<Rightarrow> bool) \<Rightarrow> request \<Rightarrow> world \<Rightarrow> (error + response) \<times> world" where
  "admin_login check_password_hash request w =
     (if is_authenticated w then (Inr (Redirect (UrlFor ''admin.index'' [])), w)
      else if request_method request = POST then
        (let username = form request ''username'';
             password = form request ''password''
         in if \<not> truthy_str username \<or> \<not> truthy_str password then
              (Inr (Render ''admin_login.html'' []),
               flash ''Please enter both username and password.'' ''error'' w)
            else
              (let invalid =
                     (Inr (Render ''admin_login.html'' []),
                      flash ''Invalid username or password. Please try again.'' ''error'' w)
               in case first (filter_by [(''username'', VStr (get_default (form request) ''username'' ''''))]
                                (query (db w) AdminUser)) of
                    None \<Rightarrow> invalid
                  | Some admin_user \<Rightarrow>
                      (case check_password check_password_hash admin_user
                              (get_default (form request) ''password'' '''') of
                         Inl e \<Rightarrow> (Inl e, w)
                       | Inr False \<Rightarrow> invalid
                       | Inr True \<Rightarrow>
                           (Inr (Redirect
                                  (if truthy_str (args request ''next'')
                                   then Url (get_default (args request) ''next'' '''')
                                   else UrlFor ''admin.index'' [])),
                            flash (''Welcome back, '' @ py_str (attr admin_user ''name'') @ ''!'')
                              ''success'' (login_user admin_user w)))))
      else (Inr (Render ''admin_login.html'' []), w))"

subsection \<open>\<open>create_default_data\<close>\<close>

text \<open>
  The five blocks of the bootstrap have one shape:
  \<^verbatim>\<open>if not Cls.query.first(): row = Cls(**kwargs); ...; db.session.add(row); print(line)\<close>.
  \<open>init\<close> is what the block does to the new object before adding it.
\<close>

definition seed ::
  "model \<Rightarrow> (string \<times> val) list \<Rightarrow> (obj \<Rightarrow> obj) \<Rightarrow> string \<Rightarrow> world \<Rightarrow> (error + unit) \<times> world" where
  "seed cls kwargs init line w =
     (if first (query (db w) cls) = None then
        (case declarative_constructor cls kwargs Map.empty of
           Inl e \<Rightarrow> (Inl e, w)
         | Inr row \<Rightarrow> (Inr (), py_print line (session_add cls (init row) w)))
      else (Inr (), w))"

definition create_default_data ::
  "(string \<Rightarrow> string) \<Rightarrow> string \<Rightarrow> world \<Rightarrow> (error + unit) \<times> world" where
  "create_default_data generate_password_hash now =
     and_then
       (seed AdminUser
          [(''username'', VStr ''admin''),
           (''name'', VStr ''Lab Administrator'')]
          (\<lambda>admin. set_password generate_password_hash admin ''changeme123'')
          ''Created default admin user - username: admin, password: changeme123'')
    (and_then
       (seed Professor
          [(''name'', VStr ''Dr. John Smith''),
           (''title'', VStr ''Professor and Lab Director''),
           (''bio'', VStr ''Principal Investigator of the Data Analysis and Deep Learning Laboratory.''),
           (''education'', VStr ''Ph.D. in Computer Science from MIT (2008)''),
           (''experience'', VStr ''Professor at University (2015-present)''),
           (''email'', VStr ''jsmith@university.edu''),
           (''office'', VStr ''Room 301, Computer Science Building''),
           (''office_hours'', VStr ''Mon/Wed 2-4 PM''),
           (''google_scholar'', VStr ''https://scholar.google.com/citations?user=XXXXXXX''),
           (''linkedin'', VStr ''https://linkedin.com/in/drjohnsmith''),
           (''website'', VStr ''https://www.example-university.edu/~jsmith'')]
          (\<lambda>row. row)
          ''Created default professor profile'')
    (and_then
       (seed LabInfo
          [(''lab_name'', VStr ''DADL Lab''),
           (''lab_full_name'', VStr ''Data Analysis and Deep Learning Laboratory''),
           (''focus_statement'', VStr ''Developing innovative ML algorithms and data analysis techniques.''),
           (''mission'', VStr ''Advancing AI through research and training next-generation data scientists.''),
           (''research_areas'', VStr ''Deep Learning, Computer Vision, NLP, Reinforcement Learning''),
           (''lab_email'', VStr ''dadl-lab@university.edu''),
           (''lab_address'', VStr ''Computer Science Department, Room 301''),
           (''lab_phone'', VStr ''+1 (555) 123-4567'')]
          (\<lambda>row. row)
          ''Created default lab information'')
    (and_then
       (seed Student
          [(''name'', VStr ''Jane Doe''),
           (''degree_type'', VStr ''PhD''),
           (''research_focus'', VStr ''Deep Learning for Computer Vision''),
           (''school'', VStr ''University Name''),
           (''start_date'', VStr ''Fall 2023''),
           (''is_current'', VBool True),
           (''email'', VStr ''jane.doe@university.edu'')]
          (\<lambda>row. row)
          ''Created sample student'')
    (and_then
       (seed Project
          [(''title'', VStr ''Deep Learning for Medical Image Analysis''),
           (''topic'', VStr ''Computer Vision''),
           (''overview'', VStr ''Developing novel deep learning algorithms for automated medical diagnosis.''),
           (''status'', VStr ''Ongoing''),
           (''start_date'', VStr ''Jan 2024'')]
          (\<lambda>row. row)
          ''Created sample project'')
    (and_then (commit now)
       (\<lambda>w. (Inr (), py_print ''Default data creation complete!'' w)))))))"

section \<open>\<^verbatim>\<open>admin_views.py\<close>\<close>

subsection \<open>Access control\<close>

text \<open>
  A Flask-Admin view class, as far as access goes: \<open>is_accessible\<close> and
  \<open>inaccessible_callback\<close>. Both base classes of the source override the two
  methods with the same bodies.
\<close>

record admin_view =
  is_accessible :: "world \<Rightarrow> bool"
  inaccessible_callback :: "request \<Rightarrow> response"

definition AuthenticatedModelView :: admin_view where
  "AuthenticatedModelView =
     \<lparr>is_accessible = (\<lambda>w. is_authenticated w),
      inaccessible_callback =
        (\<lambda>request. Redirect (UrlFor ''admin_login'' [(''next'', url request)]))\<rparr>"

definition MyAdminIndexView :: admin_view where
  "MyAdminIndexView =
     \<lparr>is_accessible = (\<lambda>w. is_authenticated w),
      inaccessible_callback =
        (\<lambda>request. Redirect (UrlFor ''admin_login'' [(''next'', url request)]))\<rparr>"

definition ProfessorModelView :: admin_view where
  "ProfessorModelView = AuthenticatedModelView"

definition StudentModelView :: admin_view where
  "StudentModelView = AuthenticatedModelView"

definition ProjectModelView :: admin_view where
  "ProjectModelView = AuthenticatedModelView"

definition PublicationModelView :: admin_view where
  "PublicationModelView = AuthenticatedModelView"

definition LabInfoModelView :: admin_view where
  "LabInfoModelView = AuthenticatedModelView"

text \<open>
  How Flask-Admin serves an exposed view method of a view class: the method runs only
  when \<open>is_accessible\<close> holds, else the response is that of \<open>inaccessible_callback\<close>.
\<close>

definition handle_view :: "admin_view \<Rightarrow> request \<Rightarrow> world \<Rightarrow> response option" where
  "handle_view view request w =
     (if \<not> is_accessible view w then Some (inaccessible_callback view request) else None)"

definition serve ::
  "admin_view \<Rightarrow> (request \<Rightarrow> world \<Rightarrow> response) \<Rightarrow> request \<Rightarrow> world \<Rightarrow> response" where
  "serve view endpoint request w =
     (case handle_view view request w of
        Some abort \<Rightarrow> abort
      | None \<Rightarrow> endpoint request w)"

definition index :: "request \<Rightarrow> world \<Rightarrow> response" where
  "index request w =
     Render ''admin/index.html''
       [(''current_user'', Object (current_user w)),
        (''logout_url'', Link (UrlFor ''admin_logout'' [])),
        (''total_students'', Value (VInt (int (length (query (db w) Student))))),
        (''current_students'',
           Value (VInt (int (length (filter_by [(''is_current'', VBool True)]
                                       (query (db w) Student)))))),
        (''total_projects'', Value (VInt (int (length (query (db w) Project))))),
        (''active_projects'',
           Value (VInt (int (length (filter_by [(''status'', VStr ''Ongoing'')]
                                       (query (db w) Project)))))),
        (''total_publications'', Value (VInt (int (length (query (db w) Publication)))))]"

subsection \<open>The file system\<close>

text \<open>
  \<open>files\<close> maps the normal form of a path (its components joined by slashes, with a
  leading slash when absolute, relative to the working directory otherwise) to what is
  there. A path is resolved component by component as the operating system does: each
  component is looked up in a directory that must exist, \<open>.\<close> and empty components stay,
  \<open>..\<close> goes to the parent. Symbolic links and permissions are left out.
\<close>

type_synonym filesystem = "string \<rightharpoonup> node"

fun split_on :: "char \<Rightarrow> string \<Rightarrow> string list" where
  "split_on sep [] = [[]]"
| "split_on sep (c # cs) =
     (if c = sep then [] # split_on sep cs
      else (case split_on sep cs of
              [] \<Rightarrow> [[c]]
            | x # xs \<Rightarrow> (c # x) # xs))"

fun join_path :: "string list \<Rightarrow> string" where
  "join_path [] = []"
| "join_path [c] = c"
| "join_path (c # d # cs) = c @ ''/'' @ join_path (d # cs)"

definition path_key :: "bool \<Rightarrow> string list \<Rightarrow> string" where
  "path_key absolute comps = (if absolute then ''/'' else []) @ join_path comps"

text \<open>The start of a walk, the root or the working directory, is a directory.\<close>

definition node_at :: "filesystem \<Rightarrow> bool \<Rightarrow> string list \<Rightarrow> node option" where
  "node_at fs absolute comps = (if comps = [] then Some Dir else fs (path_key absolute comps))"

definition parent_dir :: "bool \<Rightarrow> string list \<Rightarrow> string list" where
  "parent_dir absolute cur =
     (if cur = [] then (if absolute then [] else [''..''])
      else if last cur = ''..'' then cur @ [''..'']
      else butlast cur)"

fun walk :: "filesystem \<Rightarrow> bool \<Rightarrow> string list \<Rightarrow> string list \<Rightarrow> error + string list" where
  "walk fs absolute cur [] = Inr cur"
| "walk fs absolute cur (c # cs) =
     (case node_at fs absolute cur of
        None \<Rightarrow> Inl (FileNotFoundError (path_key absolute cur))
      | Some File \<Rightarrow> Inl (NotADirectoryError (path_key absolute cur))
      | Some Dir \<Rightarrow>
          walk fs absolute
            (if c = [] \<or> c = ''.'' then cur
             else if c = ''..'' then parent_dir absolute cur
             else cur @ [c])
            cs)"

definition is_absolute :: "string \<Rightarrow> bool" where
  "is_absolute path = (take 1 path = ''/'')"

text \<open>
  The key of what a path names, whether or not anything is there; an error when a
  directory on the way is missing or is a file, or when the path is empty.
\<close>

definition resolve :: "filesystem \<Rightarrow> string \<Rightarrow> error + string" where
  "resolve fs path =
     (if path = [] then Inl (FileNotFoundError path)
      else map_sum id (path_key (is_absolute path))
             (walk fs (is_absolute path) [] (split_on (CHR ''/'') path)))"

definition lookup :: "filesystem \<Rightarrow> string \<Rightarrow> node option" where
  "lookup fs key = (if key = [] \<or> key = ''/'' then Some Dir else fs key)"

definition os_path_join :: "string \<Rightarrow> string \<Rightarrow> string" where
  "os_path_join a b =
     (if take 1 b = ''/'' then b
      else if a = [] \<or> drop (length a - 1) a = ''/'' then a @ b
      else a @ ''/'' @ b)"

definition os_path_exists :: "filesystem \<Rightarrow> string \<Rightarrow> bool" where
  "os_path_exists fs path =
     (case resolve fs path of Inl e \<Rightarrow> False | Inr key \<Rightarrow> lookup fs key \<noteq> None)"

definition os_remove :: "string \<Rightarrow> filesystem \<Rightarrow> error + filesystem" where
  "os_remove path fs =
     (case resolve fs path of
        Inl e \<Rightarrow> Inl e
      | Inr key \<Rightarrow>
          (case lookup fs key of
             Some File \<Rightarrow> Inr (fs(key := None))
           | Some Dir \<Rightarrow> Inl (IsADirectoryError path)
           | None \<Rightarrow> Inl (FileNotFoundError path)))"

text \<open>Opening a path for writing creates the file or replaces its content.\<close>

definition write_file :: "string \<Rightarrow> filesystem \<Rightarrow> error + filesystem" where
  "write_file path fs =
     (case resolve fs path of
        Inl e \<Rightarrow> Inl e
      | Inr key \<Rightarrow>
          (case lookup fs key of
             Some Dir \<Rightarrow> Inl (IsADirectoryError path)
           | _ \<Rightarrow> Inr (fs(key \<mapsto> File))))"

definition os_mkdir :: "string \<Rightarrow> filesystem \<Rightarrow> error + filesystem" where
  "os_mkdir path fs =
     (case resolve fs path of
        Inl e \<Rightarrow> Inl e
      | Inr key \<Rightarrow>
          (case lookup fs key of
             None \<Rightarrow> Inr (fs(key \<mapsto> Dir))
           | Some n \<Rightarrow> Inl (FileExistsError path)))"

definition os_path_dirname :: "string \<Rightarrow> string" where
  "os_path_dirname path =
     (let head = rev (dropWhile (\<lambda>c. c \<noteq> CHR ''/'') (rev path))
      in if head \<noteq> [] \<and> \<not> list_all (\<lambda>c. c = CHR ''/'') head
         then rev (dropWhile (\<lambda>c. c = CHR ''/'') (rev head))
         else head)"

text \<open>
  \<open>os.makedirs(name)\<close>: the missing directories on the way are made from the top, then
  the directory itself.
\<close>

definition path_prefixes :: "string \<Rightarrow> string list" where
  "path_prefixes name =
     (let comps = filter (\<lambda>c. c \<noteq> []) (split_on (CHR ''/'') name)
      in map (\<lambda>k. path_key (is_absolute name) (take k comps)) [1..<Suc (length comps)])"

fun mkdir_each :: "string list \<Rightarrow> filesystem \<Rightarrow> error + filesystem" where
  "mkdir_each [] fs = Inr fs"
| "mkdir_each [name] fs = os_mkdir name fs"
| "mkdir_each (p # q # ps) fs =
     (if os_path_exists fs p then mkdir_each (q # ps) fs
      else (case os_mkdir p fs of
              Inl e \<Rightarrow> Inl e
            | Inr fs' \<Rightarrow> mkdir_each (q # ps) fs'))"

definition os_makedirs :: "string \<Rightarrow> filesystem \<Rightarrow> error + filesystem" where
  "os_makedirs name fs =
     (if path_prefixes name = [] then os_mkdir name fs
      else mkdir_each (path_prefixes name) fs)"

text \<open>\<open>os.path.splitext\<close>: the extension starts at the last dot of the last component,
  unless only dots precede it there.\<close>

definition os_path_splitext :: "string \<Rightarrow> string \<times> string" where
  "os_path_splitext path =
     (let tail = takeWhile (\<lambda>c. c \<noteq> CHR ''.'') (rev path)
      in case dropWhile (\<lambda>c. c \<noteq> CHR ''.'') (rev path) of
           [] \<Rightarrow> (path, [])
         | dot # head \<Rightarrow>
             if CHR ''/'' \<in> set tail then (path, [])
             else if list_ex (\<lambda>c. c \<noteq> CHR ''.'') (takeWhile (\<lambda>c. c \<noteq> CHR ''/'') head)
                  then (rev head, CHR ''.'' # rev tail)
                  else (path, []))"

subsection \<open>\<open>on_model_change\<close>\<close>

text \<open>
  The data of a form field is a plain value or an uploaded file (a \<open>FileStorage\<close>, which
  no string equals). Each hook returns the model as it leaves it; \<open>form'\<close> is the hook's \<open>form\<close>.
\<close>

datatype form_data = Data val | FileStorage string

definition ModelView_on_model_change ::
  "(string \<rightharpoonup> form_data) \<Rightarrow> obj \<Rightarrow> bool \<Rightarrow> world \<Rightarrow> (error + obj) \<times> world" where
  "ModelView_on_model_change form' model is_created w = (Inr model, w)"

definition ProfessorModelView_on_model_change ::
  "(string \<rightharpoonup> form_data) \<Rightarrow> obj \<Rightarrow> bool \<Rightarrow> world \<Rightarrow> (error + obj) \<times> world" where
  "ProfessorModelView_on_model_change form' model is_created w =
     (case (if \<not> is_created then form' ''photo'' else None) of
        None \<Rightarrow> ModelView_on_model_change form' model is_created w
      | Some photo_data \<Rightarrow>
          (let old_photo = attr model ''photo''
           in if truthy old_photo \<and> Data old_photo \<noteq> photo_data then
                (case old_photo of
                   VStr name \<Rightarrow>
                     (let old_path = os_path_join ''static/uploads/professor'' name
                      in if os_path_exists (files w) old_path then
                           (case os_remove old_path (files w) of
                              Inl e \<Rightarrow> (Inl e, w)
                            | Inr fs \<Rightarrow>
                                ModelView_on_model_change form' model is_created (w\<lparr>files := fs\<rparr>))
                         else ModelView_on_model_change form' model is_created w)
                 | _ \<Rightarrow> (Inl (TypeError ''expected str, bytes or os.PathLike object''), w))
              else ModelView_on_model_change form' model is_created w))"

text \<open>\<open>StudentModelView\<close> and \<open>ProjectModelView\<close> do not override the hook.\<close>

definition StudentModelView_on_model_change ::
  "(string \<rightharpoonup> form_data) \<Rightarrow> obj \<Rightarrow> bool \<Rightarrow> world \<Rightarrow> (error + obj) \<times> world" where
  "StudentModelView_on_model_change = ModelView_on_model_change"

definition ProjectModelView_on_model_change ::
  "(string \<rightharpoonup> form_data) \<Rightarrow> obj \<Rightarrow> bool \<Rightarrow> world \<Rightarrow> (error + obj) \<times> world" where
  "ProjectModelView_on_model_change = ModelView_on_model_change"

definition PublicationModelView_on_model_change ::
  "bibtexparser option \<Rightarrow> (string \<Rightarrow> error + int) \<Rightarrow> (string \<rightharpoonup> form_data) \<Rightarrow> obj \<Rightarrow> bool \<Rightarrow>
   world \<Rightarrow> (error + obj) \<times> world" where
  "PublicationModelView_on_model_change module to_int form' model is_created w =
     (case parse_bibtex module to_int model of
        (model', printed) \<Rightarrow>
          ModelView_on_model_change form' model' is_created
            (w\<lparr>console := console w @ printed\<rparr>))"

subsection \<open>The update of a record through a view\<close>

text \<open>
  What follows is Flask-Admin's, not the repository's: \<open>update_model\<close> of its SQLAlchemy
  \<open>ModelView\<close> and \<open>populate_obj\<close> of its \<open>ImageUploadField\<close>, modelled from the library's
  documentation and source. They decide what an update does to the files, since they
  run around the hooks above.

  A form is the list of its fields. An ordinary field carries its data. An image upload
  field carries the \<open>base_path\<close> the view configures for it, its data, and whether the
  delete box was ticked. Its data is an upload (\<open>FileStorage\<close>, with the file name under
  which the field stores it: the client's name made safe by the name generator, with
  the extension of the format it is saved in) or else the name the record holds.
\<close>

datatype form_field = Field val | ImageUploadField string form_data bool

type_synonym wtform = "(string \<times> form_field) list"

definition field_data :: "form_field \<Rightarrow> form_data" where
  "field_data fld = (case fld of Field v \<Rightarrow> Data v | ImageUploadField base d del \<Rightarrow> d)"

text \<open>The form as the hooks read it: \<open>name in form\<close> and \<open>form.name.data\<close>.\<close>

definition form_data_of :: "wtform \<Rightarrow> (string \<rightharpoonup> form_data)" where
  "form_data_of form' = map_of (map (\<lambda>(name, fld). (name, field_data fld)) form')"

text \<open>
  The \<open>base_path\<close> of the image upload fields in the \<open>form_args\<close> of the three views. All
  of them set a \<open>thumbnail_size\<close>, so every stored image has a thumbnail beside it.
\<close>

definition ProfessorModelView_form_args :: "(string \<times> string) list" where
  "ProfessorModelView_form_args = [(''photo'', ''static/uploads/professor'')]"

definition StudentModelView_form_args :: "(string \<times> string) list" where
  "StudentModelView_form_args = [(''photo'', ''static/uploads/students'')]"

definition ProjectModelView_form_args :: "(string \<times> string) list" where
  "ProjectModelView_form_args =
     [(''image1'', ''static/uploads/projects''), (''image2'', ''static/uploads/projects''),
      (''image3'', ''static/uploads/projects''), (''image4'', ''static/uploads/projects'')]"

text \<open>A form of the view: its image upload fields are those of the \<open>form_args\<close>.\<close>

definition form_of_view :: "(string \<times> string) list \<Rightarrow> wtform \<Rightarrow> bool" where
  "form_of_view form_args form' =
     list_all (\<lambda>(name, fld). case fld of
                   Field v \<Rightarrow> map_of form_args name = None
                 | ImageUploadField base d del \<Rightarrow> map_of form_args name = Some base) form'"

definition thumbgen_filename :: "string \<Rightarrow> string" where
  "thumbgen_filename filename =
     (case os_path_splitext filename of (name, ext) \<Rightarrow> name @ ''_thumb'' @ ext)"

definition on_files :: "(filesystem \<Rightarrow> error + filesystem) \<Rightarrow> world \<Rightarrow> (error + unit) \<times> world" where
  "on_files f w = (case f (files w) of Inl e \<Rightarrow> (Inl e, w) | Inr fs \<Rightarrow> (Inr (), w\<lparr>files := fs\<rparr>))"

definition delete_if_exists :: "string \<Rightarrow> world \<Rightarrow> (error + unit) \<times> world" where
  "delete_if_exists path w =
     (if os_path_exists (files w) path then on_files (os_remove path) w else (Inr (), w))"

text \<open>\<open>_delete_file\<close>: the image and its thumbnail, each if it is there.\<close>

definition ImageUploadField_delete_file :: "string \<Rightarrow> string \<Rightarrow> world \<Rightarrow> (error + unit) \<times> world" where
  "ImageUploadField_delete_file base filename =
     and_then (delete_if_exists (os_path_join base filename))
              (delete_if_exists (os_path_join base (thumbgen_filename filename)))"

text \<open>\<open>_save_file\<close>: the directory is made if missing, then the image and its thumbnail
  are written.\<close>

definition ImageUploadField_save_file :: "string \<Rightarrow> string \<Rightarrow> world \<Rightarrow> (error + unit) \<times> world" where
  "ImageUploadField_save_file base filename =
     and_then
       (\<lambda>w. if \<not> os_path_exists (files w) (os_path_dirname (os_path_join base filename))
            then on_files (os_makedirs (os_path_dirname (os_path_join base filename))) w
            else (Inr (), w))
    (and_then (on_files (write_file (os_path_join base filename)))
              (on_files (write_file (os_path_join base (thumbgen_filename filename)))))"

text \<open>
  \<open>populate_obj\<close> of one field. An ordinary field sets the attribute. An image upload
  field deletes the stored file and clears the attribute when the delete box is ticked;
  with an upload it deletes the stored file, saves the upload and sets the attribute
  to the new name; otherwise it leaves the record alone.
\<close>

definition delete_stored :: "string \<Rightarrow> val \<Rightarrow> world \<Rightarrow> (error + unit) \<times> world" where
  "delete_stored base field w =
     (case field of
        VStr filename \<Rightarrow> ImageUploadField_delete_file base filename w
      | _ \<Rightarrow> (Inl (TypeError ''expected str, bytes or os.PathLike object''), w))"

definition populate_field :: "string \<Rightarrow> form_field \<Rightarrow> obj \<Rightarrow> world \<Rightarrow> (error + obj) \<times> world" where
  "populate_field name fld obj w =
     (case fld of
        Field v \<Rightarrow> (Inr (obj(name \<mapsto> v)), w)
      | ImageUploadField base d should_delete \<Rightarrow>
          (let field = attr obj name
           in if truthy field \<and> should_delete then
                (case delete_stored base field w of
                   (Inl e, w') \<Rightarrow> (Inl e, w')
                 | (Inr u, w') \<Rightarrow> (Inr (obj(name \<mapsto> VNone)), w'))
              else
                (case d of
                   Data v \<Rightarrow> (Inr obj, w)
                 | FileStorage filename \<Rightarrow>
                     (case (if truthy field then delete_stored base field w else (Inr (), w)) of
                        (Inl e, w') \<Rightarrow> (Inl e, w')
                      | (Inr u, w') \<Rightarrow>
                          (case ImageUploadField_save_file base filename w' of
                             (Inl e, w'') \<Rightarrow> (Inl e, w'')
                           | (Inr u', w'') \<Rightarrow> (Inr (obj(name \<mapsto> VStr filename)), w''))))))"

fun populate_obj :: "wtform \<Rightarrow> obj \<Rightarrow> world \<Rightarrow> (error + obj) \<times> world" where
  "populate_obj [] obj w = (Inr obj, w)"
| "populate_obj ((name, fld) # rest) obj w =
     (case populate_field name fld obj w of
        (Inl e, w') \<Rightarrow> (Inl e, w')
      | (Inr obj', w') \<Rightarrow> populate_obj rest obj' w')"

text \<open>
  The commit of a changed record: the row with its \<open>id\<close> is replaced, unless a
  constraint fails or the row is gone; then the pending rows are written.
\<close>

definition update_row :: "model \<Rightarrow> obj \<Rightarrow> obj list \<Rightarrow> error + obj list" where
  "update_row cls row rows =
     (let others = filter (\<lambda>r. attr r ''id'' \<noteq> attr row ''id'') rows
      in if length others = length rows
         then Inl (StaleDataError (''UPDATE statement on table '' @ classname cls @
                     '' expected to update 1 row(s); 0 were matched.''))
         else (case find (violated others row) (columns cls) of
                 Some c \<Rightarrow> Inl (IntegrityError (''constraint failed: '' @ classname cls @
                                    ''.'' @ cname c))
               | None \<Rightarrow> Inr (map (\<lambda>r. if attr r ''id'' = attr row ''id'' then row else r) rows)))"

definition commit_changed :: "string \<Rightarrow> model \<Rightarrow> obj \<Rightarrow> world \<Rightarrow> (error + unit) \<times> world" where
  "commit_changed now cls row w =
     (case update_row cls row (tables (db w) (classname cls)) of
        Inl e \<Rightarrow> (Inl e, w)
      | Inr rows \<Rightarrow>
          (case commit now (w\<lparr>db := (db w)\<lparr>tables := (tables (db w))(classname cls := rows)\<rparr>\<rparr>) of
             (Inl e, w') \<Rightarrow> (Inl e, w)
           | (Inr u, w') \<Rightarrow> (Inr (), w')))"

text \<open>
  \<open>handle_view_exception\<close>: an integrity error is flashed and counts as handled; any
  other exception is raised again in debug mode and is unhandled otherwise.
\<close>

definition handle_view_exception :: "bool \<Rightarrow> error \<Rightarrow> world \<Rightarrow> (error + bool) \<times> world" where
  "handle_view_exception debug exc w =
     (case exc of
        IntegrityError m \<Rightarrow> (Inr True, flash (''Integrity error. '' @ m) ''error'' w)
      | _ \<Rightarrow> if debug then (Inl exc, w) else (Inr False, w))"

text \<open>
  \<open>update_model\<close>: the form populates the record, the hook of the view runs with
  \<open>is_created\<close> false, the session commits. An exception on the way ends the update: the
  store is rolled back, the files stay as they are then.
\<close>

definition update_model ::
  "model \<Rightarrow> ((string \<rightharpoonup> form_data) \<Rightarrow> obj \<Rightarrow> bool \<Rightarrow> world \<Rightarrow> (error + obj) \<times> world) \<Rightarrow>
   bool \<Rightarrow> string \<Rightarrow> wtform \<Rightarrow> obj \<Rightarrow> world \<Rightarrow> (error + bool) \<times> world" where
  "update_model cls on_model_change debug now form' model w =
     (case (case populate_obj form' model w of
              (Inl e, w1) \<Rightarrow> (Inl e, w1)
            | (Inr model1, w1) \<Rightarrow>
                (case on_model_change (form_data_of form') model1 False w1 of
                   (Inl e, w2) \<Rightarrow> (Inl e, w2)
                 | (Inr model2, w2) \<Rightarrow> commit_changed now cls model2 w2)) of
        (Inl exc, w') \<Rightarrow>
          (case handle_view_exception debug exc w' of
             (Inl e, w'') \<Rightarrow> (Inl e, w'')
           | (Inr handled, w'') \<Rightarrow>
               (Inr False,
                if handled then w''
                else flash (''Failed to update record. '' @ message exc) ''error'' w''))
      | (Inr u, w') \<Rightarrow> (Inr True, w'))"

definition ProfessorModelView_update_model ::
  "bool \<Rightarrow> string \<Rightarrow> wtform \<Rightarrow> obj \<Rightarrow> world \<Rightarrow> (error + bool) \<times> world" where
  "ProfessorModelView_update_model = update_model Professor ProfessorModelView_on_model_change"

definition StudentModelView_update_model ::
  "bool \<Rightarrow> string \<Rightarrow> wtform \<Rightarrow> obj \<Rightarrow> world \<Rightarrow> (error + bool) \<times> world" where
  "StudentModelView_update_model = update_model Student StudentModelView_on_model_change"

definition ProjectModelView_update_model ::
  "bool \<Rightarrow> string \<Rightarrow> wtform \<Rightarrow> obj \<Rightarrow> world \<Rightarrow> (error + bool) \<times> world" where
  "ProjectModelView_update_model = update_model Project ProjectModelView_on_model_change"

section \<open>Notions used to state the properties\<close>

text \<open>
  The entry \<open>parse_bibtex\<close> reads: the first one \<open>loads\<close> returns for the stored text,
  if the import and the call succeed and there is one.
\<close>

definition loaded_entry :: "bibtexparser option \<Rightarrow> obj \<Rightarrow> entry option" where
  "loaded_entry module self =
     (case module of
        None \<Rightarrow> None
      | Some loads \<Rightarrow>
          (case attr self ''bibtex'' of
             VStr text \<Rightarrow> (case loads text of Inr (entry # _) \<Rightarrow> Some entry | _ \<Rightarrow> None)
           | _ \<Rightarrow> None))"

text \<open>The three assignments \<open>parse_bibtex\<close> makes before it converts the year.\<close>

definition entry_fields :: "entry \<Rightarrow> obj \<Rightarrow> obj" where
  "entry_fields entry self =
     self(''title'' \<mapsto>
            VStr (replace_char (CHR 0x7D) (replace_char (CHR 0x7B)
                    (get_default entry ''title'' ''''))),
          ''authors'' \<mapsto> VStr (get_default entry ''author'' ''''),
          ''venue'' \<mapsto>
            VStr (if truthy_str (entry ''booktitle'')
                  then get_default entry ''booktitle'' ''''
                  else get_default entry ''journal'' ''''))"

text \<open>
  In how many of the four student groups of the home page a row appears.
\<close>

definition group_count :: "home_context \<Rightarrow> obj \<Rightarrow> nat" where
  "group_count h s =
     length (filter (\<lambda>g. s \<in> set g)
               [current_phd h, current_masters h, former_phd h, former_masters h])"

definition invalid_credentials :: string where
  "invalid_credentials = ''Invalid username or password. Please try again.''"

text \<open>
  A stored file name that is one path component: not empty, without a slash, and neither
  \<open>.\<close> nor \<open>..\<close>.
\<close>

definition plain_name :: "string \<Rightarrow> bool" where
  "plain_name n = (n \<noteq> [] \<and> CHR ''/'' \<notin> set n \<and> n \<noteq> ''.'' \<and> n \<noteq> ''..'')"

text \<open>A form field that changes no file: no upload in it and the delete box not ticked.\<close>

definition idle :: "form_field \<Rightarrow> bool" where
  "idle fld =
     (case fld of
        Field v \<Rightarrow> True
      | ImageUploadField base d del \<Rightarrow> \<not> del \<and> (case d of Data v \<Rightarrow> True | FileStorage s \<Rightarrow> False))"

text \<open>
  The upload directories, which \<^verbatim>\<open>app.py\<close> makes when it starts, and the path of a stored
  name in one of them.
\<close>

definition upload_dirs :: "string list" where
  "upload_dirs = [''static/uploads/professor'', ''static/uploads/students'', ''static/uploads/projects'']"

definition stored_path :: "string \<Rightarrow> string \<Rightarrow> string" where
  "stored_path base filename = base @ ''/'' @ filename"

text \<open>
  An upload directory as \<^verbatim>\<open>app.py\<close> leaves it: the directory and those above it
  exist, and it holds no directory of its own.
\<close>

definition ready :: "filesystem \<Rightarrow> string \<Rightarrow> bool" where
  "ready fs base = (base \<in> set upload_dirs \<and> fs ''static'' = Some Dir \<and> fs ''static/uploads'' = Some Dir
      \<and> fs base = Some Dir \<and> (\<forall>n. fs (stored_path base n) \<noteq> Some Dir))"

section \<open>Concrete inputs\<close>

definition empty_world :: world where
  "empty_world =
     \<lparr>db = \<lparr>tables = (\<lambda>cls. []), pending = []\<rparr>, console = [], user_id = None,
      flashes = [], files = Map.empty\<rparr>"

text \<open>
  Three citation texts and what \<open>bibtexparser.loads\<close> makes of them. The first has one
  entry, with the year \<open>in press\<close>; the second has one entry, with the year \<open>2021\<close> and
  no \<open>url\<close> field; the third has two entries, the one of the first text and then one
  with the year \<open>2021\<close> and a \<open>url\<close>.
\<close>

definition in_press_text :: string where
  "in_press_text =
     ''@article{doe, title={New title}, author={Doe, Jane}, journal={Journal}, year={in press}}''"

definition in_press_entry :: entry where
  "in_press_entry =
     [''ENTRYTYPE'' \<mapsto> ''article'', ''ID'' \<mapsto> ''doe'', ''title'' \<mapsto> ''New title'',
      ''author'' \<mapsto> ''Doe, Jane'', ''journal'' \<mapsto> ''Journal'', ''year'' \<mapsto> ''in press'']"

definition year_2021_text :: string where
  "year_2021_text =
     ''@article{doe, title={New title}, author={Doe, Jane}, journal={Journal}, year={2021}}''"

definition year_2021_entry :: entry where
  "year_2021_entry =
     [''ENTRYTYPE'' \<mapsto> ''article'', ''ID'' \<mapsto> ''doe'', ''title'' \<mapsto> ''New title'',
      ''author'' \<mapsto> ''Doe, Jane'', ''journal'' \<mapsto> ''Journal'', ''year'' \<mapsto> ''2021'']"

definition second_entry :: entry where
  "second_entry =
     [''ENTRYTYPE'' \<mapsto> ''article'', ''ID'' \<mapsto> ''roe'', ''title'' \<mapsto> ''Second title'',
      ''year'' \<mapsto> ''2021'', ''url'' \<mapsto> ''http://new.example/paper'']"

definition two_entry_text :: string where
  "two_entry_text =
     in_press_text @
     '' @article{roe, title={Second title}, year={2021}, url={http://new.example/paper}}''"

definition example_loads :: bibtexparser where
  "example_loads text =
     (if text = in_press_text then Inr [in_press_entry]
      else if text = year_2021_text then Inr [year_2021_entry]
      else if text = two_entry_text then Inr [in_press_entry, second_entry]
      else Inr [])"

text \<open>A stored publication whose citation text an administrator has just edited.\<close>

definition stored_publication :: "string \<Rightarrow> obj" where
  "stored_publication text =
     [''id'' \<mapsto> VInt 1, ''bibtex'' \<mapsto> VStr text, ''title'' \<mapsto> VStr ''Old title'',
      ''authors'' \<mapsto> VStr ''Roe, Richard'', ''venue'' \<mapsto> VStr ''Old venue'',
      ''year'' \<mapsto> VInt 2019, ''url'' \<mapsto> VStr ''http://old.example/paper'',
      ''citations'' \<mapsto> VInt 0, ''is_featured'' \<mapsto> VBool False]"

text \<open>Stores that hold rows of one table only.\<close>

definition student_row :: "int \<Rightarrow> string \<Rightarrow> string \<Rightarrow> val \<Rightarrow> obj" where
  "student_row i n degree cur =
     [''id'' \<mapsto> VInt i, ''name'' \<mapsto> VStr n, ''degree_type'' \<mapsto> VStr degree,
      ''school'' \<mapsto> VStr ''University Name'', ''is_current'' \<mapsto> cur]"

definition students_world :: "obj list \<Rightarrow> world" where
  "students_world rows =
     empty_world\<lparr>db := \<lparr>tables = (\<lambda>cls. if cls = ''Student'' then rows else []),
                           pending = []\<rparr>\<rparr>"

definition publication_row :: "int \<Rightarrow> val \<Rightarrow> bool \<Rightarrow> obj" where
  "publication_row i y featured =
     [''id'' \<mapsto> VInt i, ''bibtex'' \<mapsto> VStr ''@misc{key}'', ''year'' \<mapsto> y,
      ''citations'' \<mapsto> VInt 0, ''is_featured'' \<mapsto> VBool featured]"

definition publications_world :: "obj list \<Rightarrow> world" where
  "publications_world rows =
     empty_world\<lparr>db := \<lparr>tables = (\<lambda>cls. if cls = ''Publication'' then rows else []),
                           pending = []\<rparr>\<rparr>"

text \<open>
  A store with the one administrator, and a stand-in for \<open>check_password_hash\<close> under
  which the stored hash is that of \<open>changeme123\<close>.
\<close>

definition admin_row :: obj where
  "admin_row =
     [''id'' \<mapsto> VInt 1, ''username'' \<mapsto> VStr ''admin'',
      ''password_hash'' \<mapsto> VStr ''hash:changeme123'', ''name'' \<mapsto> VStr ''Lab Administrator'']"

definition admin_world :: world where
  "admin_world =
     empty_world\<lparr>db := \<lparr>tables = (\<lambda>cls. if cls = ''AdminUser'' then [admin_row] else []),
                           pending = []\<rparr>\<rparr>"

definition toy_check_password_hash :: "string \<Rightarrow> string \<Rightarrow> bool" where
  "toy_check_password_hash h p = (h = ''hash:'' @ p)"

definition login_request :: "string \<Rightarrow> string \<Rightarrow> request" where
  "login_request u p =
     \<lparr>request_method = POST, form = [''username'' \<mapsto> u, ''password'' \<mapsto> p],
      args = Map.empty, url = ''http://localhost:5000/admin-login''\<rparr>"

definition students_request :: request where
  "students_request =
     \<lparr>request_method = GET, form = Map.empty, args = Map.empty,
      url = ''http://localhost:5000/admin/student/''\<rparr>"




text \<open>The error the declarative constructor raises for the keyword \<open>focus_statement\<close>.\<close>

definition focus_statement_error :: error where
  "focus_statement_error =
     TypeError ([CHR 0x27] @ ''focus_statement'' @ [CHR 0x27] @
                '' is an invalid keyword argument for LabInfo'')"

text \<open>A store in which only the lab information exists already.\<close>

definition lab_info_row :: obj where
  "lab_info_row =
     [''id'' \<mapsto> VInt 1, ''lab_name'' \<mapsto> VStr ''DADL Lab'',
      ''lab_full_name'' \<mapsto> VStr ''Data Analysis and Deep Learning Laboratory'']"

definition lab_info_world :: world where
  "lab_info_world =
     empty_world\<lparr>db := \<lparr>tables = (\<lambda>cls. if cls = ''LabInfo'' then [lab_info_row] else []),
                           pending = []\<rparr>\<rparr>"

text \<open>
  A student and a professor whose stored photo is \<open>old.jpg\<close>, the form of an update that
  uploads \<open>new.jpg\<close> for each, and a store and upload area that hold both records and
  their photos with the thumbnails.
\<close>

definition enrolled_student :: obj where
  "enrolled_student =
     (student_row 1 ''Alice Johnson'' ''PhD'' (VBool True))(''photo'' \<mapsto> VStr ''old.jpg'')"

definition student_photo_form :: wtform where
  "student_photo_form =
     [(''name'', Field (VStr ''Alice Johnson'')),
      (''photo'', ImageUploadField ''static/uploads/students'' (FileStorage ''new.jpg'') False)]"

definition professor_row :: obj where
  "professor_row =
     [''id'' \<mapsto> VInt 1, ''name'' \<mapsto> VStr ''Dr. John Smith'',
      ''title'' \<mapsto> VStr ''Professor and Lab Director'', ''photo'' \<mapsto> VStr ''old.jpg'']"

definition professor_photo_form :: wtform where
  "professor_photo_form =
     [(''name'', Field (VStr ''Dr. John Smith'')),
      (''photo'', ImageUploadField ''static/uploads/professor'' (FileStorage ''new.jpg'') False)]"

definition upload_area :: filesystem where
  "upload_area =
     [''static'' \<mapsto> Dir, ''static/uploads'' \<mapsto> Dir,
      ''static/uploads/professor'' \<mapsto> Dir, ''static/uploads/students'' \<mapsto> Dir,
      ''static/uploads/projects'' \<mapsto> Dir,
      ''static/uploads/professor/old.jpg'' \<mapsto> File,
      ''static/uploads/professor/old_thumb.jpg'' \<mapsto> File,
      ''static/uploads/students/old.jpg'' \<mapsto> File,
      ''static/uploads/students/old_thumb.jpg'' \<mapsto> File]"

definition uploads_world :: world where
  "uploads_world =
     empty_world\<lparr>db := \<lparr>tables = (\<lambda>cls. if cls = ''Student'' then [enrolled_student]
                                          else if cls = ''Professor'' then [professor_row]
                                          else []),
                           pending = []\<rparr>,
                  files := upload_area\<rparr>"

section \<open>Properties of \<open>Publication.parse_bibtex\<close>\<close>

lemma py_int_empty: "py_int [] = Inl (invalid_literal [])"
  by (simp add: py_int_def strip_int_space_def)

lemma py_int_in_press: "py_int ''in press'' = Inl (invalid_literal ''in press'')"
  by (simp add: py_int_def strip_int_space_def int_space_def is_digit_def)

lemma py_int_2021: "py_int ''2021'' = Inr 2021"
  by (simp add: py_int_def strip_int_space_def int_space_def is_digit_def digit_val_def
        max_str_digits_def)

lemma texts_differ: "year_2021_text \<noteq> in_press_text"
  by (simp add: year_2021_text_def in_press_text_def)

lemma try_no_entry:
  "loaded_entry module self = None \<Longrightarrow> snd (parse_bibtex_try module to_int self) = self"
  by (auto simp: loaded_entry_def parse_bibtex_try_def
           split: option.splits val.splits sum.splits list.splits)

lemma try_entry:
  assumes "loaded_entry module self = Some entry"
  shows "parse_bibtex_try module to_int self =
     (case (if truthy_str (entry ''year'')
            then map_sum id VInt (to_int (get_default entry ''year'' ''0''))
            else Inr VNone) of
        Inl e \<Rightarrow> (Inl e, entry_fields entry self)
      | Inr year \<Rightarrow>
          (Inr (), (entry_fields entry self)
                     (''year'' \<mapsto> year, ''url'' \<mapsto> VStr (get_default entry ''url'' ''''))))"
  using assms
  by (auto simp: loaded_entry_def parse_bibtex_try_def entry_fields_def Let_def
           split: option.splits val.splits sum.splits list.splits)

lemma on_model_change_parse:
  "PublicationModelView_on_model_change module to_int form' model is_created w =
     (Inr (snd (parse_bibtex_try module to_int model)),
      w\<lparr>console := console w @ snd (parse_bibtex module to_int model)\<rparr>)"
  by (auto simp: PublicationModelView_on_model_change_def ModelView_on_model_change_def
                 parse_bibtex_def split: prod.splits sum.splits)

lemma loaded_in_press:
  "loaded_entry (Some example_loads) (stored_publication in_press_text) = Some in_press_entry"
  by (simp add: loaded_entry_def example_loads_def stored_publication_def attr_def)

lemma try_in_press_both:
  "parse_bibtex_try (Some example_loads) py_int (stored_publication in_press_text) =
     (Inl (invalid_literal ''in press''),
      entry_fields in_press_entry (stored_publication in_press_text))"
proof -
  have "in_press_entry ''year'' = Some ''in press''"
    by (simp add: in_press_entry_def)
  then show ?thesis
    by (simp add: try_entry[OF loaded_in_press] get_default_def py_int_in_press)
qed

lemma try_in_press:
  "fst (parse_bibtex_try (Some example_loads) py_int (stored_publication in_press_text)) =
     Inl (invalid_literal ''in press'')"
  by (simp add: try_in_press_both)

lemma in_press_fields:
  "attr (entry_fields in_press_entry (stored_publication in_press_text)) ''title''
     = VStr ''New title''"
  "attr (entry_fields in_press_entry (stored_publication in_press_text)) ''year'' = VInt 2019"
  "attr (entry_fields in_press_entry (stored_publication in_press_text)) ''url''
     = VStr ''http://old.example/paper''"
  by (simp_all add: entry_fields_def in_press_entry_def stored_publication_def attr_def
        get_default_def replace_char_def)

text \<open>
  C2, as stated, fails. The text \<open>in_press_text\<close> has a year that is no integer: the
  conversion raises after title, authors and venue were assigned, the error is caught,
  and the save goes through with the title changed from \<open>Old title\<close> to \<open>New title\<close>.
\<close>

theorem parse_failure_changes_title:
  "fst (parse_bibtex_try (Some example_loads) py_int (stored_publication in_press_text)) =
     Inl (invalid_literal ''in press'')
   \<and> attr (stored_publication in_press_text) ''title'' = VStr ''Old title''
   \<and> (case fst (PublicationModelView_on_model_change (Some example_loads) py_int Map.empty
                  (stored_publication in_press_text) False empty_world) of
         Inl e \<Rightarrow> False
       | Inr model' \<Rightarrow> attr model' ''title'' = VStr ''New title'')"
proof -
  have "attr (stored_publication in_press_text) ''title'' = VStr ''Old title''"
    by (simp add: stored_publication_def attr_def)
  then show ?thesis
    by (simp add: try_in_press_both on_model_change_parse in_press_fields)
qed

text \<open>
  C2, amended. Whenever the \<open>try\<close> block of \<open>parse_bibtex\<close> raises, the save hook
  returns normally, and year and url keep their stored values. Title, authors and venue
  keep theirs when no entry was read (the import or \<open>loads\<close> failed); when the entry was
  read and the year conversion raised, they hold the values of the entry.
\<close>

theorem parse_failure_effect:
  assumes "fst (parse_bibtex_try module to_int self) = Inl e"
  shows "\<exists>model'.
           fst (PublicationModelView_on_model_change module to_int form' self is_created w) = Inr model'
           \<and> attr model' ''year'' = attr self ''year''
           \<and> attr model' ''url'' = attr self ''url''
           \<and> model' = (case loaded_entry module self of
                          None \<Rightarrow> self
                        | Some entry \<Rightarrow> entry_fields entry self)"
proof (cases "loaded_entry module self")
  case None
  then show ?thesis by (simp add: on_model_change_parse try_no_entry)
next
  case (Some entry)
  from try_entry[OF Some] assms
  have "snd (parse_bibtex_try module to_int self) = entry_fields entry self"
    by (auto split: sum.splits if_splits)
  then show ?thesis using Some
    by (simp add: on_model_change_parse entry_fields_def attr_def)
qed

theorem parse_failure_effect_witness:
  "fst (parse_bibtex_try (Some example_loads) py_int (stored_publication in_press_text)) =
     Inl (invalid_literal ''in press'')
   \<and> (\<exists>model'.
         fst (PublicationModelView_on_model_change (Some example_loads) py_int Map.empty
                (stored_publication in_press_text) False empty_world) = Inr model'
         \<and> attr model' ''year'' = VInt 2019
         \<and> attr model' ''url'' = VStr ''http://old.example/paper''
         \<and> model' = entry_fields in_press_entry (stored_publication in_press_text))"
proof -
  have "attr (stored_publication in_press_text) ''year'' = VInt 2019"
       "attr (stored_publication in_press_text) ''url'' = VStr ''http://old.example/paper''"
    by (simp_all add: stored_publication_def attr_def)
  then show ?thesis
    using parse_failure_effect[OF try_in_press, of Map.empty False empty_world] try_in_press
    by (simp add: loaded_in_press)
qed

text \<open>
  C3, as stated, fails. The year \<open>in press\<close> is present and not numeric, and the year of
  the publication is not set to none: it stays 2019.
\<close>

theorem non_numeric_year_keeps_old_year:
  "in_press_entry ''year'' = Some ''in press''
   \<and> isl (py_int ''in press'')
   \<and> attr (stored_publication in_press_text) ''year'' = VInt 2019
   \<and> attr (fst (parse_bibtex (Some example_loads) py_int (stored_publication in_press_text))) ''year''
       = VInt 2019"
proof -
  have "in_press_entry ''year'' = Some ''in press''"
    by (simp add: in_press_entry_def)
  moreover have "attr (stored_publication in_press_text) ''year'' = VInt 2019"
    by (simp add: stored_publication_def attr_def)
  ultimately show ?thesis
    by (simp add: parse_bibtex_def try_in_press_both in_press_fields py_int_in_press)
qed

text \<open>
  C3, amended. For the entry \<open>parse_bibtex\<close> reads, the year of the publication becomes
  the integer value of the entry's year when \<open>int\<close> accepts it, none when the entry has
  no year or an empty one, and keeps its stored value when the year is a non-empty text
  that \<open>int\<close> rejects. This holds whatever \<open>int\<close> accepts (\<open>to_int\<close>).
\<close>

theorem parse_bibtex_year:
  assumes "attr self ''bibtex'' = VStr raw" and "loads raw = Inr (entry # rest)"
  shows "attr (fst (parse_bibtex (Some loads) to_int self)) ''year'' =
           (case entry ''year'' of
              None \<Rightarrow> VNone
            | Some y \<Rightarrow>
                if y = [] then VNone
                else (case to_int y of
                        Inr n \<Rightarrow> VInt n
                      | Inl e \<Rightarrow> attr self ''year''))"
proof -
  have le: "loaded_entry (Some loads) self = Some entry"
    using assms by (simp add: loaded_entry_def)
  show ?thesis
    using try_entry[OF le, of to_int]
    by (auto simp: parse_bibtex_def get_default_def attr_def entry_fields_def
             split: option.splits sum.splits)
qed

theorem parse_bibtex_year_witness:
  "attr (stored_publication year_2021_text) ''bibtex'' = VStr year_2021_text
   \<and> example_loads year_2021_text = Inr (year_2021_entry # [])
   \<and> attr (fst (parse_bibtex (Some example_loads) py_int (stored_publication year_2021_text))) ''year''
       = VInt 2021"
proof -
  have a: "attr (stored_publication year_2021_text) ''bibtex'' = VStr year_2021_text"
    by (simp add: stored_publication_def attr_def)
  have b: "example_loads year_2021_text = Inr (year_2021_entry # [])"
    by (simp add: example_loads_def texts_differ)
  show ?thesis
    using parse_bibtex_year[where loads = example_loads and raw = year_2021_text, OF a b] a b
    by (simp add: year_2021_entry_def py_int_2021)
qed

lemma loaded_two_entries:
  "loaded_entry (Some example_loads) (stored_publication two_entry_text) = Some in_press_entry"
  by (simp add: loaded_entry_def example_loads_def stored_publication_def attr_def
        two_entry_text_def in_press_text_def year_2021_text_def)

text \<open>
  C10, as stated, fails. The text \<open>two_entry_text\<close> parses to two entries and the second
  has a numeric year and a url, yet the save keeps the stored url: \<open>parse_bibtex\<close> reads
  the first entry only, and its year \<open>in press\<close> makes the conversion raise before the
  url is assigned.
\<close>

theorem numeric_second_entry_keeps_url:
  "example_loads two_entry_text = Inr [in_press_entry, second_entry]
   \<and> second_entry ''year'' = Some ''2021'' \<and> py_int ''2021'' = Inr 2021
   \<and> second_entry ''url'' = Some ''http://new.example/paper''
   \<and> (case fst (PublicationModelView_on_model_change (Some example_loads) py_int Map.empty
                  (stored_publication two_entry_text) False empty_world) of
         Inl e \<Rightarrow> False
       | Inr model' \<Rightarrow> attr model' ''url'' = VStr ''http://old.example/paper'')"
proof -
  have a: "example_loads two_entry_text = Inr [in_press_entry, second_entry]"
    by (simp add: example_loads_def two_entry_text_def in_press_text_def year_2021_text_def)
  have b: "second_entry ''year'' = Some ''2021''"
          "second_entry ''url'' = Some ''http://new.example/paper''"
    by (simp_all add: second_entry_def)
  have y: "in_press_entry ''year'' = Some ''in press''"
    by (simp add: in_press_entry_def)
  have "snd (parse_bibtex_try (Some example_loads) py_int (stored_publication two_entry_text))
          = entry_fields in_press_entry (stored_publication two_entry_text)"
    by (simp add: try_entry[OF loaded_two_entries] y get_default_def py_int_in_press)
  moreover have "attr (entry_fields in_press_entry (stored_publication two_entry_text)) ''url''
                   = VStr ''http://old.example/paper''"
    by (simp add: entry_fields_def stored_publication_def attr_def)
  ultimately show ?thesis
    using a b py_int_2021 by (simp add: on_model_change_parse)
qed

text \<open>
  C10, amended. When the text parses to at least one entry and the year of the first
  entry, the one \<open>parse_bibtex\<close> reads, is absent or numeric (\<open>int\<close> accepts it), the
  save leaves in \<open>url\<close> that entry's url, the empty string when the entry has none,
  whatever was stored before.
\<close>

theorem parse_bibtex_overwrites_url:
  assumes "attr self ''bibtex'' = VStr raw" and "loads raw = Inr (entry # rest)"
    and "entry ''year'' = None \<or> (\<exists>y n. entry ''year'' = Some y \<and> to_int y = Inr n)"
  shows "\<exists>model'.
           fst (PublicationModelView_on_model_change (Some loads) to_int form' self is_created w)
             = Inr model'
           \<and> attr model' ''url'' = VStr (case entry ''url'' of None \<Rightarrow> [] | Some u \<Rightarrow> u)"
proof -
  have le: "loaded_entry (Some loads) self = Some entry"
    using assms by (simp add: loaded_entry_def)
  show ?thesis
    using try_entry[OF le] assms(3)
    by (auto simp: on_model_change_parse get_default_def attr_def
             split: option.splits sum.splits)
qed

theorem parse_bibtex_overwrites_url_witness:
  "attr (stored_publication year_2021_text) ''url'' = VStr ''http://old.example/paper''
   \<and> year_2021_entry ''year'' = Some ''2021'' \<and> py_int ''2021'' = Inr 2021
   \<and> year_2021_entry ''url'' = None
   \<and> (\<exists>model'.
         fst (PublicationModelView_on_model_change (Some example_loads) py_int Map.empty
                (stored_publication year_2021_text) False empty_world) = Inr model'
         \<and> attr model' ''url'' = VStr [])"
proof -
  have a: "attr (stored_publication year_2021_text) ''bibtex'' = VStr year_2021_text"
    by (simp add: stored_publication_def attr_def)
  have b: "example_loads year_2021_text = Inr (year_2021_entry # [])"
    by (simp add: example_loads_def texts_differ)
  have c: "year_2021_entry ''year'' = None
           \<or> (\<exists>y n. year_2021_entry ''year'' = Some y \<and> py_int y = Inr n)"
    by (simp add: year_2021_entry_def py_int_2021)
  have d: "year_2021_entry ''url'' = None" "year_2021_entry ''year'' = Some ''2021''"
    by (simp_all add: year_2021_entry_def)
  show ?thesis
    using parse_bibtex_overwrites_url[where loads = example_loads and raw = year_2021_text,
            OF a b c, of Map.empty False empty_world] d py_int_2021
    by (simp add: stored_publication_def attr_def)
qed

section \<open>Properties of \<open>home\<close>\<close>

lemma filter_by_one:
  "filter_by [(k, v)] rows = filter (\<lambda>r. attr r k = v) rows"
  by (simp add: filter_by_def)

lemma filter_by_two:
  "filter_by [(k1, v1), (k2, v2)] rows =
     filter (\<lambda>r. attr r k1 = v1 \<and> attr r k2 = v2) rows"
  by (simp add: filter_by_def)

lemma home_students:
  "current_phd (home w) =
     filter (\<lambda>r. attr r ''is_current'' = VBool True \<and> attr r ''degree_type'' = VStr ''PhD'')
       (query (db w) Student)"
  "current_masters (home w) =
     filter (\<lambda>r. attr r ''is_current'' = VBool True \<and> attr r ''degree_type'' = VStr ''Masters'')
       (query (db w) Student)"
  "former_phd (home w) =
     filter (\<lambda>r. attr r ''is_current'' = VBool False \<and> attr r ''degree_type'' = VStr ''PhD'')
       (query (db w) Student)"
  "former_masters (home w) =
     filter (\<lambda>r. attr r ''is_current'' = VBool False \<and> attr r ''degree_type'' = VStr ''Masters'')
       (query (db w) Student)"
  by (simp_all add: home_def filter_by_two)

lemma students_query: "query (db (students_world rows)) Student = rows"
  by (simp add: students_world_def query_def Student_def)

lemma publications_query: "query (db (publications_world rows)) Publication = rows"
  by (simp add: publications_world_def query_def Publication_def)

lemma student_row_attrs:
  "attr (student_row i n d c) ''is_current'' = c"
  "attr (student_row i n d c) ''degree_type'' = VStr d"
  by (simp_all add: student_row_def attr_def)

lemma publication_row_attrs:
  "attr (publication_row i y f) ''is_featured'' = VBool f"
  "int_column ''year'' (publication_row i (VInt n) f) = Some n"
  "int_column ''year'' (publication_row i VNone f) = None"
  by (simp_all add: publication_row_def attr_def int_column_def)

lemma groups_mset:
  assumes "\<forall>s \<in> set rows.
             (attr s ''is_current'' = VBool True \<or> attr s ''is_current'' = VBool False)
           \<and> (attr s ''degree_type'' = VStr ''PhD'' \<or> attr s ''degree_type'' = VStr ''Masters'')"
  shows "mset (filter (\<lambda>r. attr r ''is_current'' = VBool True
                          \<and> attr r ''degree_type'' = VStr ''PhD'') rows
             @ filter (\<lambda>r. attr r ''is_current'' = VBool True
                          \<and> attr r ''degree_type'' = VStr ''Masters'') rows
             @ filter (\<lambda>r. attr r ''is_current'' = VBool False
                          \<and> attr r ''degree_type'' = VStr ''PhD'') rows
             @ filter (\<lambda>r. attr r ''is_current'' = VBool False
                          \<and> attr r ''degree_type'' = VStr ''Masters'') rows)
         = mset rows"
  using assms by (induction rows) auto

text \<open>
  C4, as stated, fails. The store does not restrict \<open>degree_type\<close>: a student stored
  with the degree \<open>MSc\<close> is in none of the four groups.
\<close>

theorem msc_student_in_no_group:
  "query (db (students_world [student_row 1 ''Sam Lee'' ''MSc'' (VBool True)])) Student
     = [student_row 1 ''Sam Lee'' ''MSc'' (VBool True)]
   \<and> group_count (home (students_world [student_row 1 ''Sam Lee'' ''MSc'' (VBool True)]))
       (student_row 1 ''Sam Lee'' ''MSc'' (VBool True)) = 0"
  by (simp add: group_count_def home_students students_query student_row_attrs)

text \<open>
  C4, amended. In every store whose student rows all have \<open>is_current\<close> set to true or
  false and a \<open>degree_type\<close> of \<open>PhD\<close> or \<open>Masters\<close> (what the admin form lets through),
  the four groups of \<open>home\<close> together hold each student row as often as the table does,
  every student row is in exactly one group, and the groups are pairwise disjoint.
\<close>

theorem home_student_partition:
  assumes "\<forall>s \<in> set (query (db w) Student).
             (attr s ''is_current'' = VBool True \<or> attr s ''is_current'' = VBool False)
           \<and> (attr s ''degree_type'' = VStr ''PhD'' \<or> attr s ''degree_type'' = VStr ''Masters'')"
  shows "mset (current_phd (home w) @ current_masters (home w) @
               former_phd (home w) @ former_masters (home w)) = mset (query (db w) Student)
       \<and> (\<forall>s \<in> set (query (db w) Student). group_count (home w) s = 1)
       \<and> set (current_phd (home w)) \<inter> set (current_masters (home w)) = {}
       \<and> set (current_phd (home w)) \<inter> set (former_phd (home w)) = {}
       \<and> set (current_phd (home w)) \<inter> set (former_masters (home w)) = {}
       \<and> set (current_masters (home w)) \<inter> set (former_phd (home w)) = {}
       \<and> set (current_masters (home w)) \<inter> set (former_masters (home w)) = {}
       \<and> set (former_phd (home w)) \<inter> set (former_masters (home w)) = {}"
proof -
  have m: "mset (current_phd (home w) @ current_masters (home w) @
               former_phd (home w) @ former_masters (home w)) = mset (query (db w) Student)"
    unfolding home_students using assms by (rule groups_mset)
  have c: "\<forall>s \<in> set (query (db w) Student). group_count (home w) s = 1"
    using assms by (auto simp: group_count_def home_students)
  have d: "set (current_phd (home w)) \<inter> set (current_masters (home w)) = {}"
       "set (current_phd (home w)) \<inter> set (former_phd (home w)) = {}"
       "set (current_phd (home w)) \<inter> set (former_masters (home w)) = {}"
       "set (current_masters (home w)) \<inter> set (former_phd (home w)) = {}"
       "set (current_masters (home w)) \<inter> set (former_masters (home w)) = {}"
       "set (former_phd (home w)) \<inter> set (former_masters (home w)) = {}"
    by (auto simp: home_students)
  from m c d show ?thesis by blast
qed

theorem home_student_partition_witness:
  "current_phd (home (students_world
      [student_row 1 ''Jane Doe'' ''PhD'' (VBool True),
       student_row 2 ''Ali Khan'' ''Masters'' (VBool True),
       student_row 3 ''Mia Chen'' ''PhD'' (VBool False),
       student_row 4 ''Tom Roy'' ''Masters'' (VBool False)]))
     = [student_row 1 ''Jane Doe'' ''PhD'' (VBool True)]
   \<and> group_count (home (students_world
      [student_row 1 ''Jane Doe'' ''PhD'' (VBool True),
       student_row 2 ''Ali Khan'' ''Masters'' (VBool True),
       student_row 3 ''Mia Chen'' ''PhD'' (VBool False),
       student_row 4 ''Tom Roy'' ''Masters'' (VBool False)]))
      (student_row 4 ''Tom Roy'' ''Masters'' (VBool False)) = 1"
proof -
  let ?rows = "[student_row 1 ''Jane Doe'' ''PhD'' (VBool True),
                student_row 2 ''Ali Khan'' ''Masters'' (VBool True),
                student_row 3 ''Mia Chen'' ''PhD'' (VBool False),
                student_row 4 ''Tom Roy'' ''Masters'' (VBool False)]"
  have h: "\<forall>s \<in> set (query (db (students_world ?rows)) Student).
             (attr s ''is_current'' = VBool True \<or> attr s ''is_current'' = VBool False)
           \<and> (attr s ''degree_type'' = VStr ''PhD'' \<or> attr s ''degree_type'' = VStr ''Masters'')"
    by (simp add: students_query student_row_attrs)
  have g: "current_phd (home (students_world ?rows))
             = [student_row 1 ''Jane Doe'' ''PhD'' (VBool True)]"
    by (simp add: home_students students_query student_row_attrs)
  show ?thesis
    using home_student_partition[OF h] g
    by (simp add: students_query)
qed

lemma order_by_desc_sorted:
  "sorted_wrt (\<lambda>a b. key b \<le> key a) (order_by_desc key rows)"
proof -
  have "sorted (map key (sort_key key (rev rows)))" by simp
  then have "sorted_wrt (\<lambda>a b. key a \<le> key b) (sort_key key (rev rows))"
    by (simp add: sorted_map)
  then show ?thesis
    by (simp add: order_by_desc_def sorted_wrt_rev)
qed

lemma featured_example:
  "featured_publications (home (publications_world
     [publication_row 1 (VInt 2019) True, publication_row 2 (VInt 2021) True,
      publication_row 3 (VInt 2022) False, publication_row 4 VNone True]))
   = [publication_row 2 (VInt 2021) True, publication_row 1 (VInt 2019) True,
      publication_row 4 VNone True]"
  by (simp add: home_def filter_by_one limit_def order_by_desc_def publications_query
        publication_row_attrs)

text \<open>
  C9. Whatever the store holds, the featured publications of \<open>home\<close> are stored
  publications whose \<open>is_featured\<close> is true, there are at most five of them, and their
  years descend along the list (a publication without a year counts as older than any
  with one, as in SQLite).
\<close>

theorem home_featured_publications:
  "(\<forall>p \<in> set (featured_publications (home w)).
        p \<in> set (query (db w) Publication) \<and> attr p ''is_featured'' = VBool True)
   \<and> length (featured_publications (home w)) \<le> 5
   \<and> sorted_wrt (\<lambda>p q. int_column ''year'' q \<le> int_column ''year'' p)
        (featured_publications (home w))"
proof -
  let ?rows = "filter_by [(''is_featured'', VBool True)] (query (db w) Publication)"
  have fp: "featured_publications (home w) = limit 5 (order_by_desc (int_column ''year'') ?rows)"
    by (simp add: home_def)
  have "set (featured_publications (home w)) \<subseteq> set ?rows"
    unfolding fp limit_def order_by_desc_def using set_take_subset[of 5] by fastforce
  then have a: "\<forall>p \<in> set (featured_publications (home w)).
        p \<in> set (query (db w) Publication) \<and> attr p ''is_featured'' = VBool True"
    by (auto simp: filter_by_one)
  have b: "length (featured_publications (home w)) \<le> 5"
    by (simp add: fp limit_def)
  have c: "sorted_wrt (\<lambda>p q. int_column ''year'' q \<le> int_column ''year'' p)
        (featured_publications (home w))"
    unfolding fp limit_def by (rule sorted_wrt_take[OF order_by_desc_sorted])
  from a b c show ?thesis by blast
qed

theorem home_featured_publications_witness:
  "featured_publications (home (publications_world
     [publication_row 1 (VInt 2019) True, publication_row 2 (VInt 2021) True,
      publication_row 3 (VInt 2022) False, publication_row 4 VNone True]))
   = [publication_row 2 (VInt 2021) True, publication_row 1 (VInt 2019) True,
      publication_row 4 VNone True]
   \<and> attr (publication_row 2 (VInt 2021) True) ''is_featured'' = VBool True
   \<and> int_column ''year'' (publication_row 1 (VInt 2019) True)
       \<le> int_column ''year'' (publication_row 2 (VInt 2021) True)"
  using home_featured_publications[of "publications_world
     [publication_row 1 (VInt 2019) True, publication_row 2 (VInt 2021) True,
      publication_row 3 (VInt 2022) False, publication_row 4 VNone True]"]
  by (simp add: featured_example)

section \<open>Properties of the login and of the admin views\<close>

lemma failed_login:
  assumes "\<not> is_authenticated w" "request_method r = POST"
    "form r ''username'' = Some u" "u \<noteq> []" "form r ''password'' = Some p" "p \<noteq> []"
    "case first (filter_by [(''username'', VStr u)] (query (db w) AdminUser)) of
       None \<Rightarrow> True
     | Some a \<Rightarrow> check_password cph a p = Inr False"
  shows "admin_login cph r w =
           (Inr (Render ''admin_login.html'' []), flash invalid_credentials ''error'' w)"
  using assms
  by (simp add: admin_login_def get_default_def invalid_credentials_def Let_def
           split: option.splits)

lemma empty_not_auth: "\<not> is_authenticated empty_world"
  by (simp add: is_authenticated_def current_user_def empty_world_def)

lemma admin_not_auth: "\<not> is_authenticated admin_world"
  by (simp add: is_authenticated_def current_user_def empty_world_def admin_world_def)

lemma admin_query: "query (db admin_world) AdminUser = [admin_row]"
  by (simp add: admin_world_def query_def AdminUser_def)

text \<open>
  C7. Take two failed attempts by visitors who are not logged in, each a POST with a
  non-empty username and password: in the first no administrator has the username, in
  the second one has and \<open>check_password\<close> says no. Both get the same response, the
  login page, and the same flashed message.
\<close>

theorem failed_login_indistinguishable:
  assumes "\<not> is_authenticated wa" and "\<not> is_authenticated wb"
    and "request_method ra = POST" and "request_method rb = POST"
    and "form ra ''username'' = Some ua" and "ua \<noteq> []"
    and "form ra ''password'' = Some pa" and "pa \<noteq> []"
    and "form rb ''username'' = Some ub" and "ub \<noteq> []"
    and "form rb ''password'' = Some pb" and "pb \<noteq> []"
    and unknown: "first (filter_by [(''username'', VStr ua)] (query (db wa) AdminUser)) = None"
    and known: "first (filter_by [(''username'', VStr ub)] (query (db wb) AdminUser)) = Some a"
    and wrong: "check_password cph a pb = Inr False"
  shows "fst (admin_login cph ra wa) = fst (admin_login cph rb wb)
       \<and> fst (admin_login cph ra wa) = Inr (Render ''admin_login.html'' [])
       \<and> snd (admin_login cph ra wa) = flash invalid_credentials ''error'' wa
       \<and> snd (admin_login cph rb wb) = flash invalid_credentials ''error'' wb"
proof -
  have 1: "admin_login cph ra wa =
           (Inr (Render ''admin_login.html'' []), flash invalid_credentials ''error'' wa)"
    using assms by (intro failed_login[where u = ua and p = pa]) simp_all
  have 2: "admin_login cph rb wb =
           (Inr (Render ''admin_login.html'' []), flash invalid_credentials ''error'' wb)"
    using assms by (intro failed_login[where u = ub and p = pb]) simp_all
  show ?thesis by (simp add: 1 2)
qed

theorem failed_login_indistinguishable_witness:
  "fst (admin_login toy_check_password_hash (login_request ''nobody'' ''changeme123'') admin_world)
     = fst (admin_login toy_check_password_hash (login_request ''admin'' ''guess'') admin_world)
   \<and> flashes (snd (admin_login toy_check_password_hash
                     (login_request ''nobody'' ''changeme123'') admin_world))
       = [(invalid_credentials, ''error'')]
   \<and> flashes (snd (admin_login toy_check_password_hash
                     (login_request ''admin'' ''guess'') admin_world))
       = [(invalid_credentials, ''error'')]"
proof -
  have unknown:
    "first (filter_by [(''username'', VStr ''nobody'')] (query (db admin_world) AdminUser)) = None"
    by (simp add: admin_query filter_by_def first_def admin_row_def attr_def)
  have known:
    "first (filter_by [(''username'', VStr ''admin'')] (query (db admin_world) AdminUser))
       = Some admin_row"
    by (simp add: admin_query filter_by_def first_def admin_row_def attr_def)
  have wrong: "check_password toy_check_password_hash admin_row ''guess'' = Inr False"
    by (simp add: check_password_def admin_row_def attr_def toy_check_password_hash_def)
  have fl: "flashes admin_world = []"
    by (simp add: admin_world_def empty_world_def)
  show ?thesis
    using failed_login_indistinguishable[
            where ra = "login_request ''nobody'' ''changeme123''" and pa = "''changeme123''"
              and rb = "login_request ''admin'' ''guess''",
            OF admin_not_auth admin_not_auth _ _ _ _ _ _ _ _ _ _ unknown known wrong]
    by (simp add: login_request_def flash_def fl)
qed








text \<open>
  C8. For a visitor who is not logged in, every view method of the admin index and of
  the five model views answers with a redirect to the login route that carries the
  requested URL as \<open>next\<close>; the view method itself does not run.
\<close>

theorem unauthenticated_admin_redirect:
  assumes "\<not> is_authenticated w"
    and "view \<in> {MyAdminIndexView, ProfessorModelView, StudentModelView, ProjectModelView,
                  PublicationModelView, LabInfoModelView}"
  shows "serve view endpoint request w =
           Redirect (UrlFor ''admin_login'' [(''next'', url request)])"
  using assms
  by (auto simp: serve_def handle_view_def MyAdminIndexView_def AuthenticatedModelView_def
        ProfessorModelView_def StudentModelView_def ProjectModelView_def
        PublicationModelView_def LabInfoModelView_def)

theorem unauthenticated_admin_redirect_witness:
  "\<not> is_authenticated empty_world
   \<and> serve StudentModelView index students_request empty_world =
       Redirect (UrlFor ''admin_login'' [(''next'', ''http://localhost:5000/admin/student/'')])"
  using unauthenticated_admin_redirect[OF empty_not_auth,
          of StudentModelView index students_request] empty_not_auth
  by (simp add: students_request_def)

section \<open>Properties of the update of a record with an image\<close>

subsection \<open>Paths in an upload directory\<close>

lemma split_on_nosep: "sep \<notin> set s \<Longrightarrow> split_on sep s = [s]"
  by (induction s) auto

lemma split_upload_path:
  assumes "base \<in> set upload_dirs" "CHR ''/'' \<notin> set n"
  shows "split_on (CHR ''/'') (stored_path base n) = [''static'', ''uploads'', drop 15 base, n]"
  using assms by (auto simp: upload_dirs_def split_on_nosep stored_path_def)

lemma join_upload:
  assumes "base \<in> set upload_dirs" "plain_name n"
  shows "os_path_join base n = stored_path base n"
  using assms by (cases n) (auto simp: upload_dirs_def os_path_join_def plain_name_def stored_path_def)

lemma stored_path_facts:
  assumes "base \<in> set upload_dirs"
  shows "stored_path base n \<noteq> []" "\<not> is_absolute (stored_path base n)"
    "stored_path base n \<noteq> ''/''" "stored_path base n \<noteq> ''static''"
    "stored_path base n \<noteq> ''static/uploads''" "stored_path base n \<noteq> base"
    "path_key False [''static'', ''uploads'', drop 15 base, n] = stored_path base n"
    "path_key False [''static'', ''uploads'', drop 15 base] = base"
    "drop 15 base \<noteq> []" "drop 15 base \<noteq> ''.''" "drop 15 base \<noteq> ''..''"
    "base \<noteq> []" "\<not> is_absolute base" "base \<noteq> ''/''"
    "split_on (CHR ''/'') base = [''static'', ''uploads'', drop 15 base]"
  using assms by (auto simp: upload_dirs_def is_absolute_def stored_path_def path_key_def)

lemma stored_path_inj: "stored_path base a = stored_path base b \<longleftrightarrow> a = b"
  by (simp add: stored_path_def)

lemma resolve_upload:
  assumes "ready fs base" "plain_name n"
  shows "resolve fs (stored_path base n) = Inr (stored_path base n)"
proof -
  have b: "base \<in> set upload_dirs" using assms by (simp add: ready_def)
  have s: "split_on (CHR ''/'') (stored_path base n) = [''static'', ''uploads'', drop 15 base, n]"
    using assms(2) by (intro split_upload_path[OF b]) (simp add: plain_name_def)
  have w: "walk fs False [] [''static'', ''uploads'', drop 15 base, n]
             = Inr [''static'', ''uploads'', drop 15 base, n]"
    using assms stored_path_facts(8-11)[OF b]
    by (simp add: node_at_def ready_def plain_name_def path_key_def)
  show ?thesis
    using stored_path_facts(1,2,7)[OF b, of n] s w by (simp add: resolve_def)
qed

lemma resolve_base:
  assumes "ready fs base"
  shows "resolve fs base = Inr base"
proof -
  have b: "base \<in> set upload_dirs" using assms by (simp add: ready_def)
  have w: "walk fs False [] [''static'', ''uploads'', drop 15 base]
             = Inr [''static'', ''uploads'', drop 15 base]"
    using assms stored_path_facts(9-11)[OF b]
    by (simp add: node_at_def ready_def path_key_def)
  show ?thesis
    using stored_path_facts(8,12,13,15)[OF b] w by (simp add: resolve_def)
qed

lemma lookup_upload:
  assumes "base \<in> set upload_dirs"
  shows "lookup fs (stored_path base n) = fs (stored_path base n)"
  using stored_path_facts(1,3)[OF assms, of n] by (simp add: lookup_def)

lemma exists_upload:
  assumes "ready fs base" "plain_name n"
  shows "os_path_exists fs (stored_path base n) = (fs (stored_path base n) \<noteq> None)"
  using assms by (simp add: os_path_exists_def resolve_upload lookup_upload ready_def)

lemma exists_base: "ready fs base \<Longrightarrow> os_path_exists fs base"
  using stored_path_facts(12,14)[of base]
  by (simp add: os_path_exists_def resolve_base lookup_def ready_def)

lemma remove_upload:
  assumes "ready fs base" "plain_name n" "fs (stored_path base n) \<noteq> None"
  shows "os_remove (stored_path base n) fs = Inr (fs(stored_path base n := None))"
proof -
  have "fs (stored_path base n) = Some File"
    using assms by (cases "fs (stored_path base n)") (auto simp: ready_def intro: node.exhaust)
  then show ?thesis
    using assms by (simp add: os_remove_def resolve_upload lookup_upload ready_def)
qed

lemma write_upload:
  assumes "ready fs base" "plain_name n"
  shows "write_file (stored_path base n) fs = Inr (fs(stored_path base n \<mapsto> File))"
proof -
  have "fs (stored_path base n) \<noteq> Some Dir" using assms by (simp add: ready_def)
  then show ?thesis
    using assms
    by (auto simp: write_file_def resolve_upload lookup_upload ready_def
             split: option.splits node.splits)
qed

lemma ready_update:
  assumes "ready fs base" "x \<noteq> Some Dir"
  shows "ready (fs(stored_path base n := x)) base"
  using assms stored_path_facts(4,5,6)[of base n]
  by (auto simp: ready_def stored_path_inj)

lemma dirname_upload:
  assumes "base \<in> set upload_dirs" "plain_name n"
  shows "os_path_dirname (stored_path base n) = base"
proof -
  have 1: "dropWhile (\<lambda>c. c \<noteq> CHR ''/'') (rev n @ CHR ''/'' # rev base) = CHR ''/'' # rev base"
    using assms(2) by (intro trans[OF dropWhile_append2]) (auto simp: plain_name_def)
  have 2: "dropWhile (\<lambda>c. c = CHR ''/'') (rev base) = rev base"
    using assms(1) by (auto simp: upload_dirs_def)
  have 3: "\<not> list_all (\<lambda>c. c = CHR ''/'') (base @ ''/'')"
    using assms(1) by (auto simp: upload_dirs_def)
  show ?thesis
    using 1 2 3 by (simp add: os_path_dirname_def stored_path_def Let_def)
qed

lemma splitext_concat: "os_path_splitext p = (a, b) \<Longrightarrow> a @ b = p"
proof -
  assume h: "os_path_splitext p = (a, b)"
  have id: "takeWhile (\<lambda>c. c \<noteq> CHR ''.'') (rev p) @ dropWhile (\<lambda>c. c \<noteq> CHR ''.'') (rev p) = rev p"
    by simp
  show ?thesis
  proof (cases "dropWhile (\<lambda>c. c \<noteq> CHR ''.'') (rev p)")
    case Nil
    have "os_path_splitext p = (p, [])"
      unfolding os_path_splitext_def Let_def Nil by simp
    then show ?thesis using h by simp
  next
    case (Cons dot head)
    then have "dot = CHR ''.''"
      using hd_dropWhile[of "\<lambda>c. c \<noteq> CHR ''.''" "rev p"] by auto
    with Cons id have "rev p = takeWhile (\<lambda>c. c \<noteq> CHR ''.'') (rev p) @ CHR ''.'' # head" by simp
    then have "p = rev head @ CHR ''.'' # rev (takeWhile (\<lambda>c. c \<noteq> CHR ''.'') (rev p))"
      by (metis rev_append rev.simps(2) rev_rev_ident append.assoc append_Cons append_Nil)
    then show ?thesis using h Cons
      by (auto simp: os_path_splitext_def Let_def split: if_splits)
  qed
qed

lemma thumb_plain:
  assumes "plain_name n"
  shows "plain_name (thumbgen_filename n)"
proof -
  obtain a b where ab: "os_path_splitext n = (a, b)" by (cases "os_path_splitext n")
  then have n: "a @ b = n" by (rule splitext_concat)
  have t: "thumbgen_filename n = a @ ''_thumb'' @ b" using ab by (simp add: thumbgen_filename_def)
  have "CHR ''/'' \<notin> set a" "CHR ''/'' \<notin> set b" using assms n by (auto simp: plain_name_def)
  then show ?thesis
    unfolding t plain_name_def by (auto simp: append_eq_Cons_conv Cons_eq_append_conv)
qed


subsection \<open>The upload field\<close>

lemma world_files_same: "w\<lparr>files := files w\<rparr> = w"
  by simp

lemma delete_upload:
  assumes "ready (files w) base" "plain_name n"
  shows "delete_if_exists (os_path_join base n) w
           = (Inr (), w\<lparr>files := (files w)(stored_path base n := None)\<rparr>)"
proof -
  have b: "base \<in> set upload_dirs" using assms by (simp add: ready_def)
  have j: "os_path_join base n = stored_path base n" by (rule join_upload[OF b assms(2)])
  show ?thesis
  proof (cases "files w (stored_path base n) = None")
    case True
    then have "(files w)(stored_path base n := None) = files w" by (simp add: fun_upd_idem)
    then show ?thesis
      using True by (simp add: delete_if_exists_def j exists_upload[OF assms])
  next
    case False
    then show ?thesis
      by (simp add: delete_if_exists_def j exists_upload[OF assms] on_files_def
                    remove_upload[OF assms])
  qed
qed

lemma delete_file_upload:
  assumes "ready (files w) base" "plain_name n"
  shows "ImageUploadField_delete_file base n w
           = (Inr (), w\<lparr>files := (files w)(stored_path base n := None,
                                           stored_path base (thumbgen_filename n) := None)\<rparr>)"
proof -
  let ?w = "w\<lparr>files := (files w)(stored_path base n := None)\<rparr>"
  have r: "ready (files ?w) base" using ready_update[OF assms(1), of None n] by simp
  show ?thesis
    unfolding ImageUploadField_delete_file_def and_then_def
    by (simp add: delete_upload[OF assms] delete_upload[OF r thumb_plain[OF assms(2)]])
qed

lemma save_file_upload:
  assumes "ready (files w) base" "plain_name n"
  shows "ImageUploadField_save_file base n w
           = (Inr (), w\<lparr>files := (files w)(stored_path base n \<mapsto> File,
                                           stored_path base (thumbgen_filename n) \<mapsto> File)\<rparr>)"
proof -
  have b: "base \<in> set upload_dirs" using assms by (simp add: ready_def)
  have j: "os_path_join base n = stored_path base n" by (rule join_upload[OF b assms(2)])
  have jt: "os_path_join base (thumbgen_filename n) = stored_path base (thumbgen_filename n)"
    by (rule join_upload[OF b thumb_plain[OF assms(2)]])
  let ?w = "w\<lparr>files := (files w)(stored_path base n \<mapsto> File)\<rparr>"
  have r: "ready (files ?w) base" using ready_update[OF assms(1), of "Some File" n] by simp
  have 1: "on_files (write_file (stored_path base n)) w = (Inr (), ?w)"
    by (simp add: on_files_def write_upload[OF assms])
  have 2: "on_files (write_file (stored_path base (thumbgen_filename n))) ?w
             = (Inr (), w\<lparr>files := (files w)(stored_path base n \<mapsto> File,
                                             stored_path base (thumbgen_filename n) \<mapsto> File)\<rparr>)"
    using write_upload[OF r thumb_plain[OF assms(2)]] by (simp add: on_files_def)
  show ?thesis
    unfolding ImageUploadField_save_file_def and_then_def j jt
    by (simp add: dirname_upload[OF b assms(2)] exists_base[OF assms(1)] 1 2)
qed

lemma populate_upload:
  assumes "ready (files w) base" "plain_name old" "plain_name new" "attr obj f = VStr old"
  shows "populate_field f (ImageUploadField base (FileStorage new) False) obj w
           = (Inr (obj(f \<mapsto> VStr new)),
              w\<lparr>files := (files w)(stored_path base old := None,
                                    stored_path base (thumbgen_filename old) := None,
                                    stored_path base new \<mapsto> File,
                                    stored_path base (thumbgen_filename new) \<mapsto> File)\<rparr>)"
proof -
  let ?w = "w\<lparr>files := (files w)(stored_path base old := None,
                                   stored_path base (thumbgen_filename old) := None)\<rparr>"
  have r: "ready (files ?w) base"
    using ready_update[OF ready_update[OF assms(1), of None old], of None "thumbgen_filename old"]
    by simp
  have t: "truthy (VStr old)" using assms(2) by (simp add: plain_name_def)
  show ?thesis
    using t save_file_upload[OF r assms(3)]
    by (simp add: populate_field_def assms(4) delete_stored_def delete_file_upload[OF assms(1,2)])
qed

lemma populate_idle:
  assumes "idle fld"
  shows "\<exists>obj'. populate_field g fld obj w = (Inr obj', w) \<and> (g \<noteq> f \<longrightarrow> attr obj' f = attr obj f)"
proof (cases fld)
  case (Field v)
  then show ?thesis by (simp add: populate_field_def attr_def)
next
  case (ImageUploadField base d del)
  then show ?thesis using assms
    by (cases d) (auto simp: populate_field_def idle_def Let_def)
qed

lemma populate_obj_idle:
  assumes "\<forall>(g, fld) \<in> set flds. g \<noteq> f \<and> idle fld"
  shows "\<exists>obj'. populate_obj flds obj w = (Inr obj', w) \<and> attr obj' f = attr obj f"
  using assms
proof (induction flds arbitrary: obj)
  case Nil
  then show ?case by simp
next
  case (Cons x rest)
  obtain g fld where x: "x = (g, fld)" by (cases x)
  have gi: "g \<noteq> f" "idle fld" using Cons.prems x by auto
  obtain obj1 where 1: "populate_field g fld obj w = (Inr obj1, w)" "attr obj1 f = attr obj f"
    using populate_idle[OF gi(2), of g obj w f] gi(1) by auto
  have "\<forall>(g, fld) \<in> set rest. g \<noteq> f \<and> idle fld" using Cons.prems by simp
  from Cons.IH[OF this, of obj1] obtain obj2
    where 2: "populate_obj rest obj1 w = (Inr obj2, w)" "attr obj2 f = attr obj1 f" by auto
  show ?case using x 1 2 by simp
qed

lemma populate_obj_append:
  assumes "populate_obj pre obj w = (Inr obj1, w1)"
  shows "populate_obj (pre @ post) obj w = populate_obj post obj1 w1"
  using assms
proof (induction pre arbitrary: obj w)
  case Nil
  then show ?case by simp
next
  case (Cons x rest)
  obtain g fld where x: "x = (g, fld)" by (cases x)
  show ?case
  proof (cases "populate_field g fld obj w")
    case (Pair r w')
    show ?thesis
    proof (cases r)
      case (Inl e)
      then show ?thesis using Cons.prems x Pair by simp
    next
      case (Inr obj')
      then have "populate_obj rest obj' w' = (Inr obj1, w1)" using Cons.prems x Pair by simp
      from Cons.IH[OF this] show ?thesis using x Pair Inr by simp
    qed
  qed
qed


lemma walk_plain:
  assumes "\<forall>c \<in> set comps. c \<noteq> [] \<and> c \<noteq> ''.'' \<and> c \<noteq> ''..''" "walk fs a cur comps = Inr r"
  shows "r = cur @ comps"
  using assms
proof (induction comps arbitrary: cur)
  case Nil
  then show ?case by simp
next
  case (Cons c cs)
  have c: "c \<noteq> []" "c \<noteq> ''.''" "c \<noteq> ''..''" using Cons.prems(1) by auto
  have "walk fs a (cur @ [c]) cs = Inr r"
    using Cons.prems(2) c by (auto split: option.splits node.splits)
  from Cons.IH[OF _ this] Cons.prems(1) show ?case by simp
qed

lemma absent_upload:
  assumes "base \<in> set upload_dirs" "plain_name n" "fs (stored_path base n) = None"
  shows "\<not> os_path_exists fs (os_path_join base n)"
proof (cases "resolve fs (stored_path base n)")
  case (Inl e)
  then show ?thesis by (simp add: os_path_exists_def join_upload[OF assms(1,2)])
next
  case (Inr key)
  have s: "split_on (CHR ''/'') (stored_path base n) = [''static'', ''uploads'', drop 15 base, n]"
    using assms(2) by (intro split_upload_path[OF assms(1)]) (simp add: plain_name_def)
  obtain r where r: "walk fs False [] [''static'', ''uploads'', drop 15 base, n] = Inr r"
      "key = path_key False r"
    using Inr stored_path_facts(1,2)[OF assms(1), of n] s
    by (cases "walk fs False [] [''static'', ''uploads'', drop 15 base, n]")
       (auto simp: resolve_def)
  have "r = [] @ [''static'', ''uploads'', drop 15 base, n]"
    using assms(2) stored_path_facts(9-11)[OF assms(1)]
    by (intro walk_plain[OF _ r(1)]) (auto simp: plain_name_def)
  then have "key = stored_path base n"
    using r(2) stored_path_facts(7)[OF assms(1), of n] by simp
  then show ?thesis
    using Inr assms(3) lookup_upload[OF assms(1), of fs n]
    by (simp add: os_path_exists_def join_upload[OF assms(1,2)])
qed

subsection \<open>The hooks and the commit\<close>

lemma os_remove_keeps_absent:
  assumes "os_remove p fs = Inr fs'" "fs k = None"
  shows "fs' k = None"
  using assms by (auto simp: os_remove_def split: sum.splits option.splits node.splits)

lemma ModelView_hook_files: "files (snd (ModelView_on_model_change fd m c w)) = files w"
  by (simp add: ModelView_on_model_change_def)

lemma Professor_hook_keeps_absent:
  assumes "files w k = None"
  shows "files (snd (ProfessorModelView_on_model_change fd m c w)) k = None"
proof (cases "if \<not> c then fd ''photo'' else None")
  case None
  then show ?thesis
    using assms by (simp add: ProfessorModelView_on_model_change_def Let_def ModelView_hook_files)
next
  case (Some photo_data)
  show ?thesis
  proof (cases "truthy (attr m ''photo'') \<and> Data (attr m ''photo'') \<noteq> photo_data")
    case False
    then have "(if truthy (attr m ''photo'') \<and> Data (attr m ''photo'') \<noteq> photo_data then x else y) = y"
      for x y :: "(error + obj) \<times> world"
      by auto
    then show ?thesis
      using assms Some
      by (simp add: ProfessorModelView_on_model_change_def Let_def ModelView_hook_files)
  next
    case True
    show ?thesis
    proof (cases "attr m ''photo''")
      case (VStr name)
      let ?p = "os_path_join ''static/uploads/professor'' name"
      show ?thesis
      proof (cases "os_path_exists (files w) ?p")
        case False
        then show ?thesis
          using assms Some True VStr
          by (simp add: ProfessorModelView_on_model_change_def Let_def ModelView_hook_files)
      next
        case ex: True
        show ?thesis
        proof (cases "os_remove ?p (files w)")
          case (Inl e)
          then show ?thesis
            using assms Some True VStr ex
            by (simp add: ProfessorModelView_on_model_change_def Let_def)
        next
          case (Inr fs)
          have "fs k = None" by (rule os_remove_keeps_absent[OF Inr assms])
          then show ?thesis
            using Some True VStr ex Inr
            by (simp add: ProfessorModelView_on_model_change_def Let_def ModelView_hook_files)
        qed
      qed
    qed (use assms Some True in \<open>simp_all add: ProfessorModelView_on_model_change_def Let_def ModelView_hook_files\<close>)
  qed
qed

lemma commit_files: "files (snd (commit now w)) = files w"
  by (simp add: commit_def split: sum.splits)

lemma commit_changed_files: "files (snd (commit_changed now cls row w)) = files w"
proof (cases "update_row cls row (tables (db w) (classname cls))")
  case (Inl e)
  then show ?thesis by (simp add: commit_changed_def)
next
  case (Inr rows)
  let ?w = "w\<lparr>db := (db w)\<lparr>tables := (tables (db w))(classname cls := rows)\<rparr>\<rparr>"
  obtain r w' where c: "commit now ?w = (r, w')" by (cases "commit now ?w")
  have "files w' = files w" using commit_files[of now ?w] c by simp
  then show ?thesis using Inr c by (cases r) (simp_all add: commit_changed_def)
qed

lemma handle_view_exception_files:
  "files (snd (handle_view_exception debug exc w)) = files w"
  by (cases exc) (simp_all add: handle_view_exception_def flash_def)

lemma update_model_keeps_absent:
  assumes p: "populate_obj form' model w = (r, w1)"
    and a: "files w1 k = None"
    and h: "\<And>fd m c w. files w k = None \<Longrightarrow> files (snd (hook fd m c w)) k = None"
  shows "files (snd (update_model cls hook debug now form' model w)) k = None"
proof -
  let ?inner = "case populate_obj form' model w of
                  (Inl e, w1) \<Rightarrow> (Inl e, w1)
                | (Inr model1, w1) \<Rightarrow>
                    (case hook (form_data_of form') model1 False w1 of
                       (Inl e, w2) \<Rightarrow> (Inl e, w2)
                     | (Inr model2, w2) \<Rightarrow> commit_changed now cls model2 w2)"
  have inner: "files (snd ?inner) k = None"
  proof (cases r)
    case (Inl e)
    then show ?thesis using p a by simp
  next
    case (Inr model1)
    obtain r2 w2 where hk: "hook (form_data_of form') model1 False w1 = (r2, w2)"
      by (cases "hook (form_data_of form') model1 False w1")
    have w2: "files w2 k = None" using h[OF a, of "form_data_of form'" model1 False] hk by simp
    show ?thesis
      using p Inr hk w2 commit_changed_files[of now cls _ w2] by (cases r2) simp_all
  qed
  obtain ri wi where i: "?inner = (ri, wi)" by (cases ?inner)
  have wi: "files wi k = None" using inner i by simp
  have "files (snd (case (ri, wi) of
                      (Inl exc, w') \<Rightarrow>
                        (case handle_view_exception debug exc w' of
                           (Inl e, w'') \<Rightarrow> (Inl e, w'')
                         | (Inr handled, w'') \<Rightarrow>
                             (Inr False,
                              if handled then w''
                              else flash (''Failed to update record. '' @ message exc) ''error'' w''))
                    | (Inr u, w') \<Rightarrow> (Inr True, w'))) k = None"
  proof (cases ri)
    case (Inl exc)
    obtain r3 w3 where 3: "handle_view_exception debug exc wi = (r3, w3)"
      by (cases "handle_view_exception debug exc wi")
    have "files w3 = files wi" using handle_view_exception_files[of debug exc wi] 3 by simp
    then show ?thesis using Inl 3 wi by (cases r3) (simp_all add: flash_def)
  next
    case (Inr u)
    then show ?thesis using wi by simp
  qed
  then show ?thesis unfolding update_model_def i .
qed

subsection \<open>The whole update\<close>

lemma populate_obj_upload:
  assumes "ready (files w) base" "plain_name old" "plain_name new" "attr model f = VStr old"
    and "old \<noteq> new" "old \<noteq> thumbgen_filename new"
    and "distinct (map fst form')"
    and "(f, ImageUploadField base (FileStorage new) False) \<in> set form'"
    and "\<forall>(g, fld) \<in> set form'. g \<noteq> f \<longrightarrow> idle fld"
  shows "\<exists>r w1. populate_obj form' model w = (r, w1) \<and> files w1 (stored_path base old) = None"
proof -
  let ?U = "ImageUploadField base (FileStorage new) False"
  obtain pre post where sp: "form' = pre @ (f, ?U) # post"
    using split_list[OF assms(8)] by auto
  have nf: "f \<notin> fst ` set pre" "f \<notin> fst ` set post"
    using assms(7) unfolding sp by auto
  have ipre: "\<forall>(g, fld) \<in> set pre. g \<noteq> f \<and> idle fld"
  proof (intro ballI, clarify)
    fix g fld
    assume m: "(g, fld) \<in> set pre"
    then have "g \<in> fst ` set pre" by (rule image_eqI[rotated]) simp
    then have "g \<noteq> f" using nf(1) by blast
    moreover have "(g, fld) \<in> set form'" using m unfolding sp by simp
    ultimately show "g \<noteq> f \<and> idle fld" using assms(9) by blast
  qed
  have ipost: "\<forall>(g, fld) \<in> set post. g \<noteq> f \<and> idle fld"
  proof (intro ballI, clarify)
    fix g fld
    assume m: "(g, fld) \<in> set post"
    then have "g \<in> fst ` set post" by (rule image_eqI[rotated]) simp
    then have "g \<noteq> f" using nf(2) by blast
    moreover have "(g, fld) \<in> set form'" using m unfolding sp by simp
    ultimately show "g \<noteq> f \<and> idle fld" using assms(9) by blast
  qed
  obtain obj1 where 1: "populate_obj pre model w = (Inr obj1, w)" "attr obj1 f = attr model f"
    using populate_obj_idle[OF ipre, of model w] by auto
  let ?w2 = "w\<lparr>files := (files w)(stored_path base old := None,
                                    stored_path base (thumbgen_filename old) := None,
                                    stored_path base new \<mapsto> File,
                                    stored_path base (thumbgen_filename new) \<mapsto> File)\<rparr>"
  have 2: "populate_field f ?U obj1 w = (Inr (obj1(f \<mapsto> VStr new)), ?w2)"
    using 1(2) assms(4) by (intro populate_upload[OF assms(1-3)]) simp
  obtain obj3 where 3: "populate_obj post (obj1(f \<mapsto> VStr new)) ?w2 = (Inr obj3, ?w2)"
    using populate_obj_idle[OF ipost, of "obj1(f \<mapsto> VStr new)" ?w2] by auto
  have "populate_obj form' model w = populate_obj ((f, ?U) # post) obj1 w"
    unfolding sp by (rule populate_obj_append[OF 1(1)])
  then have "populate_obj form' model w = (Inr obj3, ?w2)" using 2 3 by simp
  moreover have "files ?w2 (stored_path base old) = None"
    using assms(5,6) by (simp add: stored_path_inj)
  ultimately show ?thesis by blast
qed


lemma view_of_form:
  assumes "(update, form_args) \<in>
             {(ProfessorModelView_update_model, ProfessorModelView_form_args),
              (StudentModelView_update_model, StudentModelView_form_args),
              (ProjectModelView_update_model, ProjectModelView_form_args)}"
    and "form_of_view form_args form'"
    and "(f, ImageUploadField base d del) \<in> set form'"
  shows "base \<in> set upload_dirs"
    and "\<exists>cls hook. update = update_model cls hook
            \<and> (hook = ModelView_on_model_change \<or> hook = ProfessorModelView_on_model_change)"
proof -
  have "map_of form_args f = Some base"
    using assms(2,3) unfolding form_of_view_def list_all_iff by fastforce
  then show "base \<in> set upload_dirs"
    using assms(1)
    by (auto simp: ProfessorModelView_form_args_def StudentModelView_form_args_def
                   ProjectModelView_form_args_def upload_dirs_def split: if_splits)
  show "\<exists>cls hook. update = update_model cls hook
            \<and> (hook = ModelView_on_model_change \<or> hook = ProfessorModelView_on_model_change)"
    using assms(1)
    unfolding ProfessorModelView_update_model_def StudentModelView_update_model_def
      ProjectModelView_update_model_def StudentModelView_on_model_change_def
      ProjectModelView_on_model_change_def
    by blast
qed

lemma update_model_removes_superseded:
  assumes "hook = ModelView_on_model_change \<or> hook = ProfessorModelView_on_model_change"
    and "ready (files w) base" "plain_name old" "plain_name new" "attr model f = VStr old"
    and "old \<noteq> new" "old \<noteq> thumbgen_filename new"
    and "distinct (map fst form')"
    and "(f, ImageUploadField base (FileStorage new) False) \<in> set form'"
    and "\<forall>(g, fld) \<in> set form'. g \<noteq> f \<longrightarrow> idle fld"
  shows "files (snd (update_model cls hook debug now form' model w)) (stored_path base old) = None"
proof -
  obtain r w1 where p: "populate_obj form' model w = (r, w1)"
      "files w1 (stored_path base old) = None"
    using populate_obj_upload[OF assms(2-10)] by blast
  have h: "files (snd (hook fd m c w)) (stored_path base old) = None"
    if "files w (stored_path base old) = None" for fd m c w
    using assms(1) that Professor_hook_keeps_absent[OF that] by (auto simp: ModelView_hook_files)
  show ?thesis by (rule update_model_keeps_absent[OF p h])
qed

text \<open>
  C5, as stated, fails in its second half. The update of a student with a newly uploaded
  photo goes through, and the file of the superseded photo, which was in the student
  upload directory before, is not there after: the upload field deletes it when the
  form populates the record, in every view, before \<open>on_model_change\<close> runs.
\<close>

theorem student_update_deletes_superseded_photo:
  "os_path_exists (files uploads_world) (os_path_join ''static/uploads/students'' ''old.jpg'')
   \<and> fst (StudentModelView_update_model False ''2026-01-01'' student_photo_form enrolled_student
             uploads_world) = Inr True
   \<and> \<not> os_path_exists
         (files (snd (StudentModelView_update_model False ''2026-01-01'' student_photo_form
                        enrolled_student uploads_world)))
         (os_path_join ''static/uploads/students'' ''old.jpg'')"
  by code_simp

text \<open>
  C5, amended. When a Professor, Student or Project record whose image attribute holds a
  file name is updated through its view with an upload for that attribute, under
  another name than the stored one and than the thumbnail of the new one, and no other
  field of the form carries an upload or a ticked delete box, then after the update no
  file of the superseded name is in the upload directory of the view. The upload
  directories exist and hold files only; the file names are single path components.
\<close>

theorem update_deletes_superseded_image:
  assumes "(update, form_args) \<in>
             {(ProfessorModelView_update_model, ProfessorModelView_form_args),
              (StudentModelView_update_model, StudentModelView_form_args),
              (ProjectModelView_update_model, ProjectModelView_form_args)}"
    and "form_of_view form_args form'"
    and "distinct (map fst form')"
    and "(f, ImageUploadField base (FileStorage new) False) \<in> set form'"
    and "\<forall>(g, fld) \<in> set form'. g \<noteq> f \<longrightarrow> idle fld"
    and "attr model f = VStr old"
    and "plain_name old" and "plain_name new"
    and "old \<noteq> new" and "old \<noteq> thumbgen_filename new"
    and "files w ''static'' = Some Dir" and "files w ''static/uploads'' = Some Dir"
    and "files w base = Some Dir"
    and "\<forall>n. files w (stored_path base n) \<noteq> Some Dir"
  shows "files (snd (update debug now form' model w)) (stored_path base old) = None
         \<and> \<not> os_path_exists (files (snd (update debug now form' model w))) (os_path_join base old)"
proof -
  have b: "base \<in> set upload_dirs" by (rule view_of_form(1)[OF assms(1,2,4)])
  obtain cls hook where u: "update = update_model cls hook"
      "hook = ModelView_on_model_change \<or> hook = ProfessorModelView_on_model_change"
    using view_of_form(2)[OF assms(1,2,4)] by blast
  have r: "ready (files w) base"
    unfolding ready_def using b assms(11-14) by simp
  have gone: "files (snd (update debug now form' model w)) (stored_path base old) = None"
    unfolding u(1)
    by (rule update_model_removes_superseded[OF u(2) r assms(7,8,6,9,10,3,4,5)])
  show ?thesis
    using gone absent_upload[where fs = "files (snd (update debug now form' model w))", OF b assms(7) gone]
    by simp
qed

theorem update_deletes_superseded_image_witness:
  "attr professor_row ''photo'' = VStr ''old.jpg''
   \<and> os_path_exists (files uploads_world) (os_path_join ''static/uploads/professor'' ''old.jpg'')
   \<and> \<not> os_path_exists
         (files (snd (ProfessorModelView_update_model False ''2026-01-01'' professor_photo_form
                        professor_row uploads_world)))
         (os_path_join ''static/uploads/professor'' ''old.jpg'')"
proof -
  have before: "os_path_exists (files uploads_world)
                  (os_path_join ''static/uploads/professor'' ''old.jpg'')"
    by code_simp
  have t: "thumbgen_filename ''new.jpg'' = ''new_thumb.jpg''"
    by (simp add: thumbgen_filename_def os_path_splitext_def)
  have d: "\<forall>n. files uploads_world (stored_path ''static/uploads/professor'' n) \<noteq> Some Dir"
    by (simp add: uploads_world_def upload_area_def stored_path_def)
  show ?thesis
    using update_deletes_superseded_image[
            where update = ProfessorModelView_update_model
              and form_args = ProfessorModelView_form_args
              and form' = professor_photo_form and f = "''photo''"
              and base = "''static/uploads/professor''" and new = "''new.jpg''"
              and model = professor_row and old = "''old.jpg''" and w = uploads_world
              and debug = False and now = "''2026-01-01''", OF _ _ _ _ _ _ _ _ _ _ _ _ _ d]
    before
    by (simp add: t form_of_view_def ProfessorModelView_form_args_def professor_photo_form_def
          idle_def attr_def professor_row_def plain_name_def uploads_world_def upload_area_def)
qed

text \<open>
  In the professor view the hook runs after the form has populated the record, so the
  photo it reads is the new name, which no form data equals: it removes the file just
  uploaded, while the record keeps its name.
\<close>

lemma professor_update_removes_new_upload:
  "fst (ProfessorModelView_update_model False ''2026-01-01'' professor_photo_form professor_row
          uploads_world) = Inr True
   \<and> map (\<lambda>row. attr row ''photo'')
         (query (db (snd (ProfessorModelView_update_model False ''2026-01-01''
                            professor_photo_form professor_row uploads_world))) Professor)
       = [VStr ''new.jpg'']
   \<and> \<not> os_path_exists
         (files (snd (ProfessorModelView_update_model False ''2026-01-01'' professor_photo_form
                        professor_row uploads_world)))
         (os_path_join ''static/uploads/professor'' ''new.jpg'')"
  by code_simp

section \<open>The bootstrap on an empty store\<close>

text \<open>
  Where the lab information exists already, the \<open>LabInfo\<close> block is skipped and the
  bootstrap goes through: it commits one administrator, professor, student and project.
\<close>

lemma bootstrap_with_lab_info:
  "fst (create_default_data generate_password_hash now lab_info_world) = Inr ()
   \<and> map (\<lambda>cls. length (tables (db (snd (create_default_data generate_password_hash now
                                            lab_info_world))) cls))
        [''AdminUser'', ''Professor'', ''LabInfo'', ''Student'', ''Project'']
       = [1, 1, 1, 1, 1]
   \<and> pending (db (snd (create_default_data generate_password_hash now lab_info_world))) = []"
  by (simp add: create_default_data_def and_then_def seed_def empty_world_def
        lab_info_world_def query_def first_def AdminUser_def Professor_def LabInfo_def
        Student_def Project_def attributes_def Column_def PrimaryKey_def session_add_def
        py_print_def commit_def insert_row_def violated_def next_id_def attr_def
        set_password_def Let_def)

text \<open>
  C1 does not hold of the code. On the empty store \<open>create_default_data\<close> adds the
  administrator and the professor to the session and prints their two lines, then the
  constructor of \<open>LabInfo\<close> rejects the keyword \<open>focus_statement\<close>: the function raises
  \<open>TypeError\<close> before the student, the project and the commit, and every table is
  still empty.
\<close>

theorem bootstrap_raises_on_empty_store:
  "fst (create_default_data generate_password_hash now empty_world) = Inl focus_statement_error
   \<and> tables (db (snd (create_default_data generate_password_hash now empty_world)))
       = (\<lambda>cls. [])
   \<and> map (\<lambda>(cls, row). classname cls)
        (pending (db (snd (create_default_data generate_password_hash now empty_world))))
       = [''AdminUser'', ''Professor'']
   \<and> console (snd (create_default_data generate_password_hash now empty_world))
       = [''Created default admin user - username: admin, password: changeme123'',
          ''Created default professor profile'']"
  by (simp add: create_default_data_def and_then_def seed_def empty_world_def query_def
        first_def AdminUser_def Professor_def LabInfo_def attributes_def Column_def
        PrimaryKey_def session_add_def py_print_def focus_statement_error_def)

end
